theory Spec2Isabelle
  imports Main "HOL-Library.Word"
begin

chapter \<open>The model\<close>

section \<open>Values shared by the browser helpers and the backend\<close>

text \<open>
  Two programs of the repository are modelled: \<^verbatim>\<open>js/crypto-utils.js\<close>, a module of Web
  Crypto helpers for the three browser pages, and \<^verbatim>\<open>pm-server/server.js\<close>, an Express
  backend that keeps one JSON object of user records in \<^verbatim>\<open>users.json\<close>. Each
  function is embedded as a HOL function that returns either the exception the JavaScript
  throws (\<open>Inl\<close>; for an \<^verbatim>\<open>async\<close> function, the rejection of its promise) or its result
  (\<open>Inr\<close>).

  A \<^verbatim>\<open>Uint8Array\<close> is a list of bytes. A JavaScript string is a \<open>string\<close>: a list of code
  units in the range 0..255, which is the range \<^verbatim>\<open>String.fromCharCode\<close> produces from bytes
  and the range \<^verbatim>\<open>btoa\<close> accepts.
\<close>

type_synonym byte = "8 word"
type_synonym bytes = "byte list"

text \<open>
  The exceptions that occur: the language's \<^verbatim>\<open>ReferenceError\<close> (with the name that did not
  resolve), \<^verbatim>\<open>TypeError\<close>, \<^verbatim>\<open>SyntaxError\<close> and \<^verbatim>\<open>RangeError\<close>, the \<^verbatim>\<open>DOMException\<close>s of the
  host by name, and \<open>AppError\<close> for an error value that an application defines itself.
\<close>

datatype exn =
    ReferenceError string
  | TypeError
  | SyntaxError
  | InvalidCharacterError
  | OperationError
  | InvalidAccessError
  | QuotaExceededError
  | NotSupportedError
  | RangeError
  | AppError string

text \<open>
  A value parsed from JSON. A number is held as the text that \<^verbatim>\<open>Number.prototype.toString\<close>
  gives for it (so both zeros are \<open>''0''\<close>); this text decides everything the programs do
  with a number: its truth value, its use as a property key, and its image in
  \<^verbatim>\<open>JSON.stringify\<close>. A literal too large for a double, such as \<^verbatim>\<open>1e999\<close>, parses to an
  infinity, whose text is \<open>''Infinity''\<close> or \<open>''-Infinity''\<close>; \<^verbatim>\<open>NaN\<close> has no literal. The
  members of an object are listed in property order.
\<close>

datatype json =
    JNull
  | JBool bool
  | JNum string
  | JStr string
  | JArr "json list"
  | JObj "(string \<times> json) list"

section \<open>Base64 helpers: \<^verbatim>\<open>b64\<close> and \<^verbatim>\<open>ub64\<close>\<close>

text \<open>
  \<^verbatim>\<open>export const b64 = u8 => btoa(String.fromCharCode(...u8));\<close>

  \<^verbatim>\<open>export const ub64 = s => new Uint8Array(atob(s).split('').map(c=>c.charCodeAt(0)));\<close>

  \<^verbatim>\<open>btoa\<close> and \<^verbatim>\<open>atob\<close> are host functions. \<open>btoa\<close> is the base64 encoding of RFC 4648 with
  padding: three octets become four characters of the alphabet, and a last group of one
  or two octets is padded with \<open>=\<close>. \<open>atob\<close> is the forgiving base64 decoding of the WHATWG
  Infra standard: ASCII whitespace is removed; if the length is then a multiple of four,
  one or two trailing \<open>=\<close> are removed; a length that leaves remainder one, or any
  character outside the alphabet, is an \<open>InvalidCharacterError\<close>; the characters are then
  decoded six bits at a time, and the two or four bits left over at the end are dropped.

  The spread in \<^verbatim>\<open>b64\<close> passes every byte as an argument of one call, and an engine
  accepts only so many arguments in a call: beyond that the call throws a \<open>RangeError\<close>.
  The bound depends on the engine and its stack, so it is a parameter, \<open>max_args\<close>: the
  largest number of arguments that the call accepts.
\<close>

definition b64_alphabet :: string where
  "b64_alphabet = ''ABCDEFGHIJKLMNOPQRSTUVWXYZabcdefghijklmnopqrstuvwxyz0123456789+/''"

definition sextet_char :: "nat \<Rightarrow> char" where
  "sextet_char i = b64_alphabet ! i"

fun index_of :: "'a \<Rightarrow> 'a list \<Rightarrow> nat option" where
  "index_of x [] = None"
| "index_of x (y # ys) = (if x = y then Some 0 else map_option Suc (index_of x ys))"

definition char_sextet :: "char \<Rightarrow> nat option" where
  "char_sextet c = index_of c b64_alphabet"

fun encode_groups :: "nat list \<Rightarrow> string" where
  "encode_groups (a # b # c # rest) =
     sextet_char (a div 4) # sextet_char ((a mod 4) * 16 + b div 16)
       # sextet_char ((b mod 16) * 4 + c div 64) # sextet_char (c mod 64) # encode_groups rest"
| "encode_groups [a, b] =
     [sextet_char (a div 4), sextet_char ((a mod 4) * 16 + b div 16),
      sextet_char ((b mod 16) * 4), CHR ''='']"
| "encode_groups [a] =
     [sextet_char (a div 4), sextet_char ((a mod 4) * 16), CHR ''='', CHR ''='']"
| "encode_groups [] = []"

definition btoa :: "string \<Rightarrow> string" where
  "btoa s = encode_groups (map of_char s)"

definition ascii_whitespace :: "char \<Rightarrow> bool" where
  "ascii_whitespace c = (c \<in> set [CHR 0x09, CHR 0x0A, CHR 0x0C, CHR 0x0D, CHR 0x20])"

definition strip_padding :: "string \<Rightarrow> string" where
  "strip_padding d =
     (if length d mod 4 = 0 then
        (if 2 \<le> length d \<and> drop (length d - 2) d = ''=='' then take (length d - 2) d
         else if 1 \<le> length d \<and> last d = CHR ''='' then butlast d
         else d)
      else d)"

fun decode_groups :: "nat list \<Rightarrow> nat list" where
  "decode_groups (a # b # c # d # rest) =
     (a * 4 + b div 16) # ((b mod 16) * 16 + c div 4) # ((c mod 4) * 64 + d) # decode_groups rest"
| "decode_groups [a, b, c] = [a * 4 + b div 16, (b mod 16) * 16 + c div 4]"
| "decode_groups [a, b] = [a * 4 + b div 16]"
| "decode_groups [a] = []"
| "decode_groups [] = []"

definition atob :: "string \<Rightarrow> exn + string" where
  "atob s =
     (let d = strip_padding (filter (\<lambda>c. \<not> ascii_whitespace c) s) in
      if length d mod 4 = 1 then Inl InvalidCharacterError
      else if list_ex (\<lambda>c. char_sextet c = None) d then Inl InvalidCharacterError
      else Inr (map char_of (decode_groups (map (\<lambda>c. the (char_sextet c)) d))))"

text \<open>
  \<open>b64\<close>: \<^verbatim>\<open>String.fromCharCode(...u8)\<close> is the string whose code units are the bytes, when
  the engine accepts that many arguments.
  \<open>ub64\<close>: \<^verbatim>\<open>split('')\<close> and \<^verbatim>\<open>charCodeAt(0)\<close> read the code units back, and
  \<^verbatim>\<open>new Uint8Array\<close> stores each modulo 256. An exception of \<^verbatim>\<open>atob\<close> leaves \<open>ub64\<close> as it is.
\<close>

definition b64 :: "nat \<Rightarrow> bytes \<Rightarrow> exn + string" where
  "b64 max_args u8 =
     (if max_args < length u8 then Inl RangeError
      else Inr (btoa (map (\<lambda>b. char_of (unat b)) u8)))"

definition ub64 :: "string \<Rightarrow> exn + bytes" where
  "ub64 s = (case atob s of Inl e \<Rightarrow> Inl e
             | Inr t \<Rightarrow> Inr (map (\<lambda>c. of_nat (of_char c)) t))"

text \<open>
  The sextets and the number of padding characters of an encoding, on their own: the
  proof of the round trip splits \<open>encode_groups\<close> into these two.
\<close>

fun sextets :: "nat list \<Rightarrow> nat list" where
  "sextets (a # b # c # rest) =
     (a div 4) # ((a mod 4) * 16 + b div 16) # ((b mod 16) * 4 + c div 64) # (c mod 64) # sextets rest"
| "sextets [a, b] = [a div 4, (a mod 4) * 16 + b div 16, (b mod 16) * 4]"
| "sextets [a] = [a div 4, (a mod 4) * 16]"
| "sextets [] = []"

fun padding :: "nat list \<Rightarrow> nat" where
  "padding (a # b # c # rest) = padding rest"
| "padding [a, b] = 1"
| "padding [a] = 2"
| "padding [] = 0"

section \<open>The Web Crypto interface\<close>

text \<open>
  \<^verbatim>\<open>crypto.subtle\<close>, \<^verbatim>\<open>crypto.getRandomValues\<close>, \<^verbatim>\<open>TextDecoder\<close>, \<^verbatim>\<open>JSON.parse\<close> and the global
  object belong to the host, not to the repository. The functions of \<^verbatim>\<open>crypto.subtle\<close> are
  modelled as the W3C Web Cryptography API defines them (which checks are made, in which
  order, and which exception each failure raises), over primitives that are parameters:
  a \<open>host\<close> gives PBKDF2 with HMAC-SHA-256 (\<open>kdf password salt iterations bits\<close>), the
  AES-GCM authenticated encryption with a 128-bit tag (\<open>gcm_seal key iv plaintext\<close>), its
  authenticated decryption (\<open>gcm_open key iv data\<close>, \<open>None\<close> when the tag does not verify), the
  UTF-8 decoder, the JSON parser, and the global bindings by name (the text of the value,
  or \<open>None\<close> for a name that is not bound). Every theorem about the helpers holds for all
  hosts.

  The algorithm of a key is listed with the length of the key for AES-GCM and HMAC, and
  for ECDSA (always on the curve P-256 here) with the type of the key, public or private.
\<close>

datatype key_type = Public | Private

datatype key_alg = PBKDF2 | AES_GCM nat | HMAC nat | ECDSA key_type

datatype usage = Encrypt | Decrypt | Sign | Verify | DeriveKey | DeriveBits | WrapKey | UnwrapKey

text \<open>
  A \<^verbatim>\<open>CryptoKey\<close>. \<open>handle\<close> is its internal slot with the raw key material: a script cannot
  read it from a key that is not extractable, but every operation with the key uses it.
\<close>

record CryptoKey =
  algorithm :: key_alg
  extractable :: bool
  usages :: "usage list"
  handle :: bytes

record host =
  global_binding :: "string \<Rightarrow> string option"
  kdf :: "bytes \<Rightarrow> bytes \<Rightarrow> nat \<Rightarrow> nat \<Rightarrow> bytes"
  gcm_seal :: "bytes \<Rightarrow> bytes \<Rightarrow> bytes \<Rightarrow> bytes"
  gcm_open :: "bytes \<Rightarrow> bytes \<Rightarrow> bytes \<Rightarrow> bytes option"
  text_decode :: "bytes \<Rightarrow> string"
  json_parse :: "string \<Rightarrow> exn + json"

text \<open>
  The random source of \<^verbatim>\<open>crypto.getRandomValues\<close>: the bytes it will give, in order. A call
  reads the first bytes and leaves the rest for the next call.
\<close>

type_synonym entropy = "nat \<Rightarrow> byte"

text \<open>\<^verbatim>\<open>enc.encode\<close> (\<^verbatim>\<open>TextEncoder\<close>): UTF-8, one byte below 128 and two bytes from 128 to 255.\<close>

definition enc_encode :: "string \<Rightarrow> bytes" where
  "enc_encode s =
     concat (map (\<lambda>c. let n = (of_char c :: nat) in
                        if n < 128 then [of_nat n]
                        else [of_nat (192 + n div 64), of_nat (128 + n mod 64)]) s)"

text \<open>
  \<^verbatim>\<open>importKey('raw', keyData, 'PBKDF2', extractable, usages)\<close>: a usage other than
  \<^verbatim>\<open>deriveKey\<close> and \<^verbatim>\<open>deriveBits\<close>, or an extractable key, is a \<open>SyntaxError\<close>.
\<close>

definition importKey_PBKDF2 :: "bytes \<Rightarrow> bool \<Rightarrow> usage list \<Rightarrow> exn + CryptoKey" where
  "importKey_PBKDF2 keyData ext us =
     (if list_ex (\<lambda>u. u \<noteq> DeriveKey \<and> u \<noteq> DeriveBits) us then Inl SyntaxError
      else if ext then Inl SyntaxError
      else Inr \<lparr>algorithm = PBKDF2, extractable = False, usages = us, handle = keyData\<rparr>)"

text \<open>
  The \<^emph>\<open>derive bits\<close> operation of PBKDF2: a length that is not a multiple of 8, or zero
  iterations, is an \<open>OperationError\<close>; otherwise the result is PBKDF2 of the base key's
  material, the salt and the iteration count, at that length.
\<close>

definition derive_bits :: "host \<Rightarrow> bytes \<Rightarrow> nat \<Rightarrow> CryptoKey \<Rightarrow> nat \<Rightarrow> exn + bytes" where
  "derive_bits h salt iterations baseKey len =
     (if len mod 8 \<noteq> 0 then Inl OperationError
      else if iterations = 0 then Inl OperationError
      else Inr (kdf h (handle baseKey) salt iterations len))"

text \<open>
  \<^verbatim>\<open>deriveBits(params, baseKey, length)\<close> checks the algorithm and the \<^verbatim>\<open>deriveBits\<close> usage
  of the base key, then derives.
\<close>

definition subtle_deriveBits :: "host \<Rightarrow> bytes \<Rightarrow> nat \<Rightarrow> CryptoKey \<Rightarrow> nat \<Rightarrow> exn + bytes" where
  "subtle_deriveBits h salt iterations baseKey len =
     (if algorithm baseKey \<noteq> PBKDF2 then Inl InvalidAccessError
      else if DeriveBits \<notin> set (usages baseKey) then Inl InvalidAccessError
      else derive_bits h salt iterations baseKey len)"

text \<open>
  \<^verbatim>\<open>deriveKey(params, baseKey, derivedKeyType, extractable, usages)\<close> checks the algorithm
  and the \<^verbatim>\<open>deriveKey\<close> usage of the base key, takes the length from the type of the derived
  key (\<^emph>\<open>get key length\<close>), runs the same \<^emph>\<open>derive bits\<close> operation at that length, and
  imports the bits as a raw key of the derived type. The import refuses a usage the type
  does not have and an empty list of usages (\<open>SyntaxError\<close>).
\<close>

fun key_length :: "key_alg \<Rightarrow> exn + nat" where
  "key_length (AES_GCM n) = (if n = 128 \<or> n = 192 \<or> n = 256 then Inr n else Inl OperationError)"
| "key_length (HMAC n) = (if n = 0 then Inl TypeError else Inr n)"
| "key_length PBKDF2 = Inl OperationError"
| "key_length (ECDSA t) = Inl NotSupportedError"

fun allowed_usages :: "key_alg \<Rightarrow> usage list" where
  "allowed_usages (AES_GCM n) = [Encrypt, Decrypt, WrapKey, UnwrapKey]"
| "allowed_usages (HMAC n) = [Sign, Verify]"
| "allowed_usages PBKDF2 = [DeriveKey, DeriveBits]"
| "allowed_usages (ECDSA Public) = [Verify]"
| "allowed_usages (ECDSA Private) = [Sign]"

definition import_secret :: "bytes \<Rightarrow> key_alg \<Rightarrow> bool \<Rightarrow> usage list \<Rightarrow> exn + CryptoKey" where
  "import_secret secret alg ext us =
     (if list_ex (\<lambda>u. u \<notin> set (allowed_usages alg)) us then Inl SyntaxError
      else if us = [] then Inl SyntaxError
      else Inr \<lparr>algorithm = alg, extractable = ext, usages = us, handle = secret\<rparr>)"

definition subtle_deriveKey ::
  "host \<Rightarrow> bytes \<Rightarrow> nat \<Rightarrow> CryptoKey \<Rightarrow> key_alg \<Rightarrow> bool \<Rightarrow> usage list \<Rightarrow> exn + CryptoKey" where
  "subtle_deriveKey h salt iterations baseKey derived ext us =
     (if algorithm baseKey \<noteq> PBKDF2 then Inl InvalidAccessError
      else if DeriveKey \<notin> set (usages baseKey) then Inl InvalidAccessError
      else case key_length derived of
             Inl e \<Rightarrow> Inl e
           | Inr len \<Rightarrow>
               (case derive_bits h salt iterations baseKey len of
                  Inl e \<Rightarrow> Inl e
                | Inr secret \<Rightarrow> import_secret secret derived ext us))"

text \<open>
  \<^verbatim>\<open>encrypt({name:'AES-GCM', iv}, key, data)\<close>: a key of another algorithm or without the
  \<^verbatim>\<open>encrypt\<close> usage is an \<open>InvalidAccessError\<close>; a plaintext longer than \<open>2^39 - 256\<close> bytes is
  an \<open>OperationError\<close>; the result is the ciphertext with the tag appended.
  \<^verbatim>\<open>decrypt({name:'AES-GCM', iv}, key, data)\<close>: the same two checks on the key; data shorter
  than the tag, or a tag that does not verify, is an \<open>OperationError\<close>.
\<close>

definition subtle_encrypt :: "host \<Rightarrow> bytes \<Rightarrow> CryptoKey \<Rightarrow> bytes \<Rightarrow> exn + bytes" where
  "subtle_encrypt h nonce key plaintext =
     (case algorithm key of
        AES_GCM n \<Rightarrow>
          if Encrypt \<notin> set (usages key) then Inl InvalidAccessError
          else if 2 ^ 39 - 256 < length plaintext then Inl OperationError
          else Inr (gcm_seal h (handle key) nonce plaintext)
      | _ \<Rightarrow> Inl InvalidAccessError)"

definition subtle_decrypt :: "host \<Rightarrow> bytes \<Rightarrow> CryptoKey \<Rightarrow> bytes \<Rightarrow> exn + bytes" where
  "subtle_decrypt h nonce key data =
     (case algorithm key of
        AES_GCM n \<Rightarrow>
          if Decrypt \<notin> set (usages key) then Inl InvalidAccessError
          else if length data < 16 then Inl OperationError
          else (case gcm_open h (handle key) nonce data of
                  None \<Rightarrow> Inl OperationError
                | Some plaintext \<Rightarrow> Inr plaintext)
      | _ \<Rightarrow> Inl InvalidAccessError)"

text \<open>
  ECDSA over P-256 with SHA-256 is a primitive of the host as well. The helpers that sign
  and verify take it as a parameter of its own: the public key that belongs to a private
  key (\<open>ecdsa_public secret\<close>), the signature of a private key on data, made with the
  random number that the host draws for it (\<open>ecdsa_sign secret nonce data\<close>), and the
  check of a signature against a public key and data
  (\<open>ecdsa_check public signature data\<close>), which answers for every byte string in the place of
  the signature: one that is not a signature at all is answered with \<^verbatim>\<open>false\<close>.
\<close>

record ecdsa_host =
  ecdsa_public :: "bytes \<Rightarrow> bytes"
  ecdsa_sign :: "bytes \<Rightarrow> bytes \<Rightarrow> bytes \<Rightarrow> bytes"
  ecdsa_check :: "bytes \<Rightarrow> bytes \<Rightarrow> bytes \<Rightarrow> bool"

text \<open>
  \<^verbatim>\<open>generateKey({name:'ECDSA', namedCurve:'P-256'}, extractable, usages)\<close>: a usage other
  than \<^verbatim>\<open>sign\<close> and \<^verbatim>\<open>verify\<close> is a \<open>SyntaxError\<close>, and so is a list of usages that leaves the
  private key without one. The public key gets the usage \<^verbatim>\<open>verify\<close> if the list has it and
  is always extractable; the private key gets the usage \<^verbatim>\<open>sign\<close>. \<open>secret\<close> is the private
  key that the host draws.
\<close>

record key_pair =
  publicKey :: CryptoKey
  privateKey :: CryptoKey

definition generateKey_ECDSA :: "ecdsa_host \<Rightarrow> bool \<Rightarrow> usage list \<Rightarrow> bytes \<Rightarrow> exn + key_pair" where
  "generateKey_ECDSA e ext us secret =
     (if list_ex (\<lambda>u. u \<noteq> Sign \<and> u \<noteq> Verify) us then Inl SyntaxError
      else if Sign \<notin> set us then Inl SyntaxError
      else Inr \<lparr>publicKey = \<lparr>algorithm = ECDSA Public, extractable = True,
                              usages = filter (\<lambda>u. u = Verify) us,
                              handle = ecdsa_public e secret\<rparr>,
                 privateKey = \<lparr>algorithm = ECDSA Private, extractable = ext,
                               usages = filter (\<lambda>u. u = Sign) us, handle = secret\<rparr>\<rparr>)"

text \<open>
  \<^verbatim>\<open>sign({name:'ECDSA', hash:'SHA-256'}, key, data)\<close>: a key of another algorithm, a key
  without the \<^verbatim>\<open>sign\<close> usage, or a key that is not private is an \<open>InvalidAccessError\<close>.
  \<^verbatim>\<open>verify({name:'ECDSA', hash:'SHA-256'}, key, signature, data)\<close>: a key of another
  algorithm, a key without the \<^verbatim>\<open>verify\<close> usage, or a key that is not public is an
  \<open>InvalidAccessError\<close>; otherwise the promise resolves to the boolean of the check.
\<close>

definition subtle_sign :: "ecdsa_host \<Rightarrow> CryptoKey \<Rightarrow> bytes \<Rightarrow> bytes \<Rightarrow> exn + bytes" where
  "subtle_sign e key data nonce =
     (case algorithm key of
        ECDSA t \<Rightarrow>
          if Sign \<notin> set (usages key) then Inl InvalidAccessError
          else if t \<noteq> Private then Inl InvalidAccessError
          else Inr (ecdsa_sign e (handle key) nonce data)
      | _ \<Rightarrow> Inl InvalidAccessError)"

definition subtle_verify :: "ecdsa_host \<Rightarrow> CryptoKey \<Rightarrow> bytes \<Rightarrow> bytes \<Rightarrow> exn + bool" where
  "subtle_verify e key signature data =
     (case algorithm key of
        ECDSA t \<Rightarrow>
          if Verify \<notin> set (usages key) then Inl InvalidAccessError
          else if t \<noteq> Public then Inl InvalidAccessError
          else Inr (ecdsa_check e (handle key) signature data)
      | _ \<Rightarrow> Inl InvalidAccessError)"

section \<open>The helpers of \<^verbatim>\<open>crypto-utils.js\<close>\<close>

subsection \<open>Key derivation\<close>

text \<open>
  \<^verbatim>\<open>pbkdf2Key(password, salt, iterations = 150000, usage = ['encrypt','decrypt'])\<close> imports
  the encoded password as PBKDF2 material with the \<^verbatim>\<open>deriveKey\<close> usage and derives from it a
  256-bit AES-GCM key that is not extractable.
  \<^verbatim>\<open>pbkdf2Bits(password, salt, iterations = 150000)\<close> imports the same material with the
  \<^verbatim>\<open>deriveBits\<close> usage and derives 256 bits, returned as bytes.
  \<^verbatim>\<open>deriveEncAndMac(password, salt, iterations = 150000)\<close> imports the material once and
  calls \<^verbatim>\<open>deriveKey\<close> twice with the same \<^verbatim>\<open>params\<close>: for a 256-bit AES-GCM key, and for an
  HMAC-SHA-256 key of length 256.
\<close>

definition default_iterations :: nat where
  "default_iterations = 150000"

definition default_usage :: "usage list" where
  "default_usage = [Encrypt, Decrypt]"

definition pbkdf2Key :: "host \<Rightarrow> string \<Rightarrow> bytes \<Rightarrow> nat \<Rightarrow> usage list \<Rightarrow> exn + CryptoKey" where
  "pbkdf2Key h password salt iterations usage =
     (case importKey_PBKDF2 (enc_encode password) False [DeriveKey] of
        Inl e \<Rightarrow> Inl e
      | Inr material \<Rightarrow> subtle_deriveKey h salt iterations material (AES_GCM 256) False usage)"

definition pbkdf2Bits :: "host \<Rightarrow> string \<Rightarrow> bytes \<Rightarrow> nat \<Rightarrow> exn + bytes" where
  "pbkdf2Bits h password salt iterations =
     (case importKey_PBKDF2 (enc_encode password) False [DeriveBits] of
        Inl e \<Rightarrow> Inl e
      | Inr material \<Rightarrow> subtle_deriveBits h salt iterations material 256)"

record derived_keys =
  aesKey :: CryptoKey
  macKey :: CryptoKey

definition deriveEncAndMac :: "host \<Rightarrow> string \<Rightarrow> bytes \<Rightarrow> nat \<Rightarrow> exn + derived_keys" where
  "deriveEncAndMac h password salt iterations =
     (case importKey_PBKDF2 (enc_encode password) False [DeriveKey] of
        Inl e \<Rightarrow> Inl e
      | Inr material \<Rightarrow>
          (case subtle_deriveKey h salt iterations material (AES_GCM 256) False [Encrypt, Decrypt] of
             Inl e \<Rightarrow> Inl e
           | Inr a \<Rightarrow>
               (case subtle_deriveKey h salt iterations material (HMAC 256) False [Sign, Verify] of
                  Inl e \<Rightarrow> Inl e
                | Inr m \<Rightarrow> Inr \<lparr>aesKey = a, macKey = m\<rparr>)))"

subsection \<open>Random bytes and AES-GCM\<close>

text \<open>
  \<^verbatim>\<open>randomBytes(n)\<close> allocates \<open>n\<close> bytes and has \<^verbatim>\<open>crypto.getRandomValues\<close> fill them, which
  refuses more than 65536 bytes (\<open>QuotaExceededError\<close>).
\<close>

definition randomBytes :: "nat \<Rightarrow> entropy \<Rightarrow> (exn + bytes) \<times> entropy" where
  "randomBytes n tape =
     (if 65536 < n then (Inl QuotaExceededError, tape)
      else (Inr (map tape [0..<n]), (\<lambda>i. tape (i + n))))"

text \<open>
  \<^verbatim>\<open>aesGcmEncryptJSON(obj, key)\<close>, as the module has it:

  \<^verbatim>\<open>const ivB = ub64(iv); const ctB = ub64(ciphertext);\<close>

  \<^verbatim>\<open>const pt = await crypto.subtle.decrypt({name:'AES-GCM', iv: ivB}, key, ctB);\<close>

  \<^verbatim>\<open>return JSON.parse(dec.decode(pt));\<close>

  The body never reads \<^verbatim>\<open>obj\<close>. \<^verbatim>\<open>iv\<close> and \<^verbatim>\<open>ciphertext\<close> are neither parameters nor
  bindings of the module (which declares \<^verbatim>\<open>b64\<close>, \<^verbatim>\<open>ub64\<close>, \<^verbatim>\<open>enc\<close>, \<^verbatim>\<open>dec\<close> and its
  functions), so they resolve in the global object: \<open>resolve\<close> gives the text of the
  binding, or the \<open>ReferenceError\<close> of a name that no scope binds. The module has no
  function that decrypts JSON under another name.
\<close>

definition resolve :: "host \<Rightarrow> string \<Rightarrow> exn + string" where
  "resolve h name =
     (case global_binding h name of None \<Rightarrow> Inl (ReferenceError name) | Some v \<Rightarrow> Inr v)"

definition aesGcmEncryptJSON :: "host \<Rightarrow> json \<Rightarrow> CryptoKey \<Rightarrow> exn + json" where
  "aesGcmEncryptJSON h obj key =
     (case resolve h ''iv'' of Inl e \<Rightarrow> Inl e | Inr iv_text \<Rightarrow>
      case ub64 iv_text of Inl e \<Rightarrow> Inl e | Inr ivB \<Rightarrow>
      case resolve h ''ciphertext'' of Inl e \<Rightarrow> Inl e | Inr ct_text \<Rightarrow>
      case ub64 ct_text of Inl e \<Rightarrow> Inl e | Inr ctB \<Rightarrow>
      case subtle_decrypt h ivB key ctB of Inl e \<Rightarrow> Inl e | Inr pt \<Rightarrow>
      json_parse h (text_decode h pt))"

text \<open>
  \<^verbatim>\<open>aesGcmEncryptBytes(bytes, key)\<close> draws 12 random bytes, encrypts under them and returns
  \<^verbatim>\<open>{ iv, ciphertext: ct }\<close>. \<^verbatim>\<open>aesGcmDecryptBytes(iv, ct, key)\<close> awaits the decryption and
  returns a copy of the plaintext; it has no \<^verbatim>\<open>try\<close>, so a rejection of \<^verbatim>\<open>decrypt\<close> is the
  rejection of the helper.
\<close>

record sealed =
  iv :: bytes
  ciphertext :: bytes

definition aesGcmEncryptBytes :: "host \<Rightarrow> bytes \<Rightarrow> CryptoKey \<Rightarrow> entropy \<Rightarrow> (exn + sealed) \<times> entropy" where
  "aesGcmEncryptBytes h data key tape =
     (case randomBytes 12 tape of
        (Inl e, tape') \<Rightarrow> (Inl e, tape')
      | (Inr nonce, tape') \<Rightarrow>
          (case subtle_encrypt h nonce key data of
             Inl e \<Rightarrow> (Inl e, tape')
           | Inr ct \<Rightarrow> (Inr \<lparr>iv = nonce, ciphertext = ct\<rparr>, tape')))"


definition aesGcmDecryptBytes :: "host \<Rightarrow> bytes \<Rightarrow> bytes \<Rightarrow> CryptoKey \<Rightarrow> exn + bytes" where
  "aesGcmDecryptBytes h nonce ct key =
     (case subtle_decrypt h nonce key ct of Inl e \<Rightarrow> Inl e | Inr pt \<Rightarrow> Inr pt)"

text \<open>
  Modelled from the spec: the \<^verbatim>\<open>AuthenticationFailure\<close> condition of its sections 4.1 and 7,
  a typed failure, distinct from a generic exception. \<^verbatim>\<open>crypto-utils.js\<close>
  declares no such value; it stands here for an error that the application defines,
  different from every exception the host raises.
\<close>

definition AuthenticationFailure :: exn where
  "AuthenticationFailure = AppError ''AuthenticationFailure''"

subsection \<open>Signatures\<close>

text \<open>
  \<^verbatim>\<open>genEcdsaKeyPair()\<close> generates an extractable pair with the usages \<^verbatim>\<open>['sign','verify']\<close>.
  \<^verbatim>\<open>ecdsaSign(privateKey, dataBytes)\<close> awaits the signature and returns a copy of it.
  \<^verbatim>\<open>ecdsaVerify(publicKey, dataBytes, signature)\<close> returns the promise of \<^verbatim>\<open>verify\<close>, to which it
  passes the signature before the data; it has no \<^verbatim>\<open>try\<close>.
\<close>

definition genEcdsaKeyPair :: "ecdsa_host \<Rightarrow> bytes \<Rightarrow> exn + key_pair" where
  "genEcdsaKeyPair e secret = generateKey_ECDSA e True [Sign, Verify] secret"

definition ecdsaSign :: "ecdsa_host \<Rightarrow> CryptoKey \<Rightarrow> bytes \<Rightarrow> bytes \<Rightarrow> exn + bytes" where
  "ecdsaSign e key dataBytes nonce =
     (case subtle_sign e key dataBytes nonce of Inl x \<Rightarrow> Inl x | Inr sg \<Rightarrow> Inr sg)"

definition ecdsaVerify :: "ecdsa_host \<Rightarrow> CryptoKey \<Rightarrow> bytes \<Rightarrow> bytes \<Rightarrow> exn + bool" where
  "ecdsaVerify e key dataBytes signature = subtle_verify e key signature dataBytes"

subsection \<open>A host to run the helpers on\<close>

text \<open>
  To evaluate the helpers at concrete inputs a host must be fixed. In this one the key
  stretching is a sum of the bytes, and the cipher adds a mask to every byte and appends a
  16-byte checksum of key, nonce and plaintext. They have the functional behaviour of the
  real primitives that matters here (decryption inverts encryption, the sealed data is at
  least a tag long, another key is refused) and none of their strength. No global
  variable is bound.
\<close>

definition sample_mask :: "bytes \<Rightarrow> bytes \<Rightarrow> byte" where
  "sample_mask k nonce = sum_list (k @ nonce)"

definition sample_tag :: "bytes \<Rightarrow> bytes \<Rightarrow> bytes \<Rightarrow> bytes" where
  "sample_tag k nonce pt = replicate 16 (sum_list (k @ nonce @ pt))"

definition sample_seal :: "bytes \<Rightarrow> bytes \<Rightarrow> bytes \<Rightarrow> bytes" where
  "sample_seal k nonce pt = map (\<lambda>b. b + sample_mask k nonce) pt @ sample_tag k nonce pt"

definition sample_open :: "bytes \<Rightarrow> bytes \<Rightarrow> bytes \<Rightarrow> bytes option" where
  "sample_open k nonce ct =
     (if length ct < 16 then None
      else let pt = map (\<lambda>b. b - sample_mask k nonce) (take (length ct - 16) ct)
           in if drop (length ct - 16) ct = sample_tag k nonce pt then Some pt else None)"

definition sample_kdf :: "bytes \<Rightarrow> bytes \<Rightarrow> nat \<Rightarrow> nat \<Rightarrow> bytes" where
  "sample_kdf pw salt iterations len =
     replicate (len div 8) (sum_list (pw @ salt) + of_nat iterations)"

definition sample_host :: host where
  "sample_host =
     \<lparr>global_binding = (\<lambda>name. None), kdf = sample_kdf, gcm_seal = sample_seal,
      gcm_open = sample_open, text_decode = map (\<lambda>b. char_of (unat b)),
      json_parse = (\<lambda>text. Inl SyntaxError)\<rparr>"

definition sample_key :: "byte \<Rightarrow> CryptoKey" where
  "sample_key b = \<lparr>algorithm = AES_GCM 256, extractable = False, usages = [Encrypt, Decrypt],
                   handle = replicate 32 b\<rparr>"







section \<open>The backend: \<^verbatim>\<open>pm-server/server.js\<close>\<close>

subsection \<open>Truth values and property keys\<close>

text \<open>
  \<^verbatim>\<open>!x\<close> on a value parsed from JSON: \<^verbatim>\<open>null\<close>, \<^verbatim>\<open>false\<close>, zero and the empty string are
  false, every array and object is true. A field the body does not have is \<^verbatim>\<open>undefined\<close>,
  which is false.
\<close>

fun truthy :: "json \<Rightarrow> bool" where
  "truthy JNull = False"
| "truthy (JBool b) = b"
| "truthy (JNum n) = (n \<noteq> ''0'')"
| "truthy (JStr s) = (s \<noteq> [])"
| "truthy (JArr xs) = True"
| "truthy (JObj fs) = True"

text \<open>
  \<^verbatim>\<open>users[username]\<close> converts \<^verbatim>\<open>username\<close> to a property key. A string is its own key. An
  array is the join of its elements with commas, \<^verbatim>\<open>null\<close> elements counting as empty. An
  object is \<^verbatim>\<open>[object Object]\<close>, unless it has a member \<^verbatim>\<open>toString\<close> of its own: that
  member is not a function, \<^verbatim>\<open>valueOf\<close> then returns no primitive either, and the
  conversion throws a \<open>TypeError\<close>.
\<close>

fun first_error :: "(exn + 'a) list \<Rightarrow> exn + 'a list" where
  "first_error [] = Inr []"
| "first_error (Inl e # rs) = Inl e"
| "first_error (Inr x # rs) = (case first_error rs of Inl e \<Rightarrow> Inl e | Inr xs \<Rightarrow> Inr (x # xs))"

fun join_comma :: "string list \<Rightarrow> string" where
  "join_comma [] = []"
| "join_comma [s] = s"
| "join_comma (s # t # ts) = s @ '','' @ join_comma (t # ts)"

fun to_string :: "json \<Rightarrow> exn + string" where
  "to_string JNull = Inr ''null''"
| "to_string (JBool b) = Inr (if b then ''true'' else ''false'')"
| "to_string (JNum n) = Inr n"
| "to_string (JStr s) = Inr s"
| "to_string (JArr xs) =
     (case first_error (map (\<lambda>x. if x = JNull then Inr [] else to_string x) xs) of
        Inl e \<Rightarrow> Inl e
      | Inr parts \<Rightarrow> Inr (join_comma parts))"
| "to_string (JObj fs) =
     (if ''toString'' \<in> set (map fst fs) then Inl TypeError else Inr ''[object Object]'')"

subsection \<open>The state of the server\<close>

text \<open>
  \<^verbatim>\<open>saveUsers\<close> writes \<^verbatim>\<open>JSON.stringify\<close> of its argument into the file, and \<^verbatim>\<open>res.json\<close> sends
  \<^verbatim>\<open>JSON.stringify\<close> of its argument. \<open>stored v\<close> is the value that is parsed back from the
  text written for \<open>v\<close>: \<open>v\<close> itself, except that an infinite number, at any depth, is
  written as \<^verbatim>\<open>null\<close>.
\<close>

fun stored :: "json \<Rightarrow> json" where
  "stored JNull = JNull"
| "stored (JBool b) = JBool b"
| "stored (JNum n) = (if n = ''Infinity'' \<or> n = ''-Infinity'' then JNull else JNum n)"
| "stored (JStr s) = JStr s"
| "stored (JArr xs) = JArr (map stored xs)"
| "stored (JObj fs) = JObj (map (\<lambda>f. (fst f, stored (snd f))) fs)"

text \<open>A value without an infinite number; \<open>stored\<close> leaves such a value as it is.\<close>

fun finite_json :: "json \<Rightarrow> bool" where
  "finite_json JNull = True"
| "finite_json (JBool b) = True"
| "finite_json (JNum n) = (n \<noteq> ''Infinity'' \<and> n \<noteq> ''-Infinity'')"
| "finite_json (JStr s) = True"
| "finite_json (JArr xs) = list_all finite_json xs"
| "finite_json (JObj fs) = list_all (\<lambda>f. finite_json (snd f)) fs"

text \<open>
  \<^verbatim>\<open>users.json\<close> holds one object. \<^verbatim>\<open>initDB\<close> creates it as \<^verbatim>\<open>{}\<close>, and the only writes are
  those of \<^verbatim>\<open>/register\<close> and \<^verbatim>\<open>/updateVault\<close>, so each member is a record
  \<^verbatim>\<open>{ salt, verifier, vault }\<close> under the key of its user. \<^verbatim>\<open>loadUsers\<close> parses the file and
  \<^verbatim>\<open>saveUsers\<close> writes \<^verbatim>\<open>JSON.stringify\<close> of the object: only the members of its own.
\<close>

record user =
  salt :: json
  verifier :: json
  vault :: json

text \<open>
  \<^verbatim>\<open>users\<close> and \<^verbatim>\<open>req.body\<close> are ordinary objects, so a property they do not have
  themselves is looked up in \<^verbatim>\<open>Object.prototype\<close>. That object has the accessor
  \<^verbatim>\<open>__proto__\<close> (which returns \<^verbatim>\<open>Object.prototype\<close> itself for such an object) and eleven
  functions; all of them are true as conditions. The one statement of the server that
  writes a property of an object it has looked up is

  \<^verbatim>\<open>users[username].vault = vault;\<close>

  in \<^verbatim>\<open>/updateVault\<close>, and it writes the property \<^verbatim>\<open>vault\<close>. When \<^verbatim>\<open>username\<close> is
  \<^verbatim>\<open>__proto__\<close> the object is \<^verbatim>\<open>Object.prototype\<close>, and from then on every object of the
  process inherits \<^verbatim>\<open>vault\<close>. So the state of the server has a second part beside the file:
  whether \<^verbatim>\<open>Object.prototype\<close> has a property \<^verbatim>\<open>vault\<close>, and its value. The value is the
  JSON value of some request; the statement can also store this object into its own
  property \<^verbatim>\<open>vault\<close>, which makes it circular (\<open>PollutedKnot before after\<close>: the members
  before and after the member \<^verbatim>\<open>vault\<close> that refers to the object itself).
\<close>

datatype pollution =
    Unpolluted
  | Polluted json
  | PollutedKnot "(string \<times> json) list" "(string \<times> json) list"

record server_state =
  users_file :: "string \<Rightarrow> user option"
  proto_vault :: pollution

definition object_prototype_functions :: "string list" where
  "object_prototype_functions =
     [''constructor'', ''__defineGetter__'', ''__defineSetter__'', ''hasOwnProperty'',
      ''__lookupGetter__'', ''__lookupSetter__'', ''isPrototypeOf'', ''propertyIsEnumerable'',
      ''toString'', ''valueOf'', ''toLocaleString'']"

fun pollution_truthy :: "pollution \<Rightarrow> bool" where
  "pollution_truthy Unpolluted = False"
| "pollution_truthy (Polluted j) = truthy j"
| "pollution_truthy (PollutedKnot before after) = True"

text \<open>\<^verbatim>\<open>JSON.stringify\<close> of the inherited value; a circular object is a \<open>TypeError\<close>.\<close>

fun pollution_json :: "pollution \<Rightarrow> exn + json option" where
  "pollution_json Unpolluted = Inr None"
| "pollution_json (Polluted j) = Inr (Some (stored j))"
| "pollution_json (PollutedKnot before after) = Inl TypeError"

text \<open>
  The body of a request is the object that \<^verbatim>\<open>express.json()\<close> parsed.
  \<^verbatim>\<open>const { username, vault } = req.body\<close> reads \<^verbatim>\<open>username\<close>, \<^verbatim>\<open>salt\<close> and \<^verbatim>\<open>verifier\<close> from
  the body alone, since \<^verbatim>\<open>Object.prototype\<close> never has these; \<^verbatim>\<open>vault\<close> is the body's own
  member, or else the inherited one.
\<close>

type_synonym request_body = "(string \<times> json) list"

datatype vault_arg = OwnVault json | InheritedVault

definition vault_of :: "request_body \<Rightarrow> vault_arg" where
  "vault_of b = (case map_of b ''vault'' of Some w \<Rightarrow> OwnVault w | None \<Rightarrow> InheritedVault)"

fun vault_truthy :: "server_state \<Rightarrow> vault_arg \<Rightarrow> bool" where
  "vault_truthy st (OwnVault w) = truthy w"
| "vault_truthy st InheritedVault = pollution_truthy (proto_vault st)"

text \<open>The value of \<^verbatim>\<open>vault\<close> as \<^verbatim>\<open>saveUsers\<close> writes it into a record.\<close>

fun vault_json :: "server_state \<Rightarrow> vault_arg \<Rightarrow> exn + json" where
  "vault_json st (OwnVault w) = Inr (stored w)"
| "vault_json st InheritedVault =
     (case proto_vault st of Polluted j \<Rightarrow> Inr (stored j) | _ \<Rightarrow> Inl TypeError)"

text \<open>
  \<^verbatim>\<open>users[username]\<close>: the record of the user, or else what \<^verbatim>\<open>Object.prototype\<close> has under
  that key; \<open>None\<close> when the value is \<^verbatim>\<open>undefined\<close> or false as a condition.
\<close>

datatype member = Own user | ObjectPrototype | Builtin string | PollutedVault

definition users_get :: "server_state \<Rightarrow> string \<Rightarrow> member option" where
  "users_get st k =
     (case users_file st k of
        Some u \<Rightarrow> Some (Own u)
      | None \<Rightarrow>
          if k = ''__proto__'' then Some ObjectPrototype
          else if k \<in> set object_prototype_functions then Some (Builtin k)
          else if k = ''vault'' \<and> pollution_truthy (proto_vault st) then Some PollutedVault
          else None)"

text \<open>
  \<^verbatim>\<open>target.vault = vault\<close> where the target is the inherited value itself (the key is
  \<^verbatim>\<open>vault\<close>). On an object the member is replaced or added; storing the object into itself
  ties the knot. On an array the new property is not an element, and nothing reads it. On
  a string, a number or \<^verbatim>\<open>true\<close> the assignment throws, as the module is strict code.
\<close>

fun set_field :: "(string \<times> json) list \<Rightarrow> string \<Rightarrow> json \<Rightarrow> (string \<times> json) list" where
  "set_field [] k v = [(k, v)]"
| "set_field ((k', v') # fs) k v = (if k' = k then (k, v) # fs else (k', v') # set_field fs k v)"

definition knot :: "(string \<times> json) list \<Rightarrow> pollution" where
  "knot fs =
     PollutedKnot (takeWhile (\<lambda>f. fst f \<noteq> ''vault'') fs)
                  (drop 1 (dropWhile (\<lambda>f. fst f \<noteq> ''vault'') fs))"

fun assign_vault :: "pollution \<Rightarrow> vault_arg \<Rightarrow> exn + pollution" where
  "assign_vault (Polluted (JObj fs)) (OwnVault w) = Inr (Polluted (JObj (set_field fs ''vault'' w)))"
| "assign_vault (Polluted (JObj fs)) InheritedVault = Inr (knot fs)"
| "assign_vault (Polluted (JArr xs)) v = Inr (Polluted (JArr xs))"
| "assign_vault (Polluted j) v = Inl TypeError"
| "assign_vault (PollutedKnot before after) (OwnVault w) =
     Inr (Polluted (JObj (before @ [(''vault'', w)] @ after)))"
| "assign_vault (PollutedKnot before after) InheritedVault = Inr (PollutedKnot before after)"
| "assign_vault Unpolluted v = Inr Unpolluted"

subsection \<open>Responses\<close>

text \<open>
  \<^verbatim>\<open>res.status(code).json(value)\<close>; \<^verbatim>\<open>res.json(value)\<close> alone has status 200. The payloads are
  \<^verbatim>\<open>{ error: message }\<close>, \<^verbatim>\<open>{ ok: true }\<close>, a JSON value, and the empty body that
  \<^verbatim>\<open>res.json\<close> sends for a function.
\<close>

datatype payload = Message string | Ok | Json json | Empty

record response =
  status :: nat
  payload :: payload

definition reply :: "nat \<Rightarrow> payload \<Rightarrow> exn + response" where
  "reply code p = Inr \<lparr>status = code, payload = p\<rparr>"

definition user_json :: "user \<Rightarrow> json" where
  "user_json u = JObj [(''salt'', salt u), (''verifier'', verifier u), (''vault'', vault u)]"

subsection \<open>The handlers\<close>

text \<open>
  Each handler takes the state and the body of the request, and returns the response (or
  the exception that rejects the handler) and the state afterwards.

  \<^verbatim>\<open>POST /register\<close> (lines 44 to 61). \<^verbatim>\<open>!username || !salt || !verifier || !vault\<close> is
  written here as the negation of the conjunction.
\<close>

definition register :: "server_state \<Rightarrow> request_body \<Rightarrow> (exn + response) \<times> server_state" where
  "register st b =
     (case (map_of b ''username'', map_of b ''salt'', map_of b ''verifier'') of
        (Some username_v, Some salt_v, Some verifier_v) \<Rightarrow>
          if \<not> (truthy username_v \<and> truthy salt_v \<and> truthy verifier_v
                 \<and> vault_truthy st (vault_of b))
          then (reply 400 (Message ''Missing fields''), st)
          else
            (case to_string username_v of
               Inl e \<Rightarrow> (Inl e, st)
             | Inr k \<Rightarrow>
                 (case users_get st k of
                    Some m \<Rightarrow> (reply 409 (Message ''User exists''), st)
                  | None \<Rightarrow>
                      (case vault_json st (vault_of b) of
                         Inl e \<Rightarrow> (Inl e, st)
                       | Inr w \<Rightarrow>
                           (reply 200 Ok,
                            st\<lparr>users_file := (users_file st)
                                 (k \<mapsto> \<lparr>salt = stored salt_v, verifier = stored verifier_v,
                                         vault = w\<rparr>)\<rparr>))))
      | _ \<Rightarrow> (reply 400 (Message ''Missing fields''), st))"

text \<open>
  \<^verbatim>\<open>POST /login\<close> (lines 69 to 82) answers with \<^verbatim>\<open>users[username]\<close> as JSON: the record of
  the user, or the image of the inherited value.
\<close>

definition login :: "server_state \<Rightarrow> request_body \<Rightarrow> (exn + response) \<times> server_state" where
  "login st b =
     (case map_of b ''username'' of
        None \<Rightarrow> (reply 400 (Message ''Missing username''), st)
      | Some username_v \<Rightarrow>
          if \<not> truthy username_v then (reply 400 (Message ''Missing username''), st)
          else
            (case to_string username_v of
               Inl e \<Rightarrow> (Inl e, st)
             | Inr k \<Rightarrow>
                 (case users_get st k of
                    None \<Rightarrow> (reply 404 (Message ''No such user''), st)
                  | Some (Own u) \<Rightarrow> (reply 200 (Json (user_json u)), st)
                  | Some (Builtin f) \<Rightarrow> (reply 200 Empty, st)
                  | Some ObjectPrototype \<Rightarrow>
                      (case pollution_json (proto_vault st) of
                         Inl e \<Rightarrow> (Inl e, st)
                       | Inr None \<Rightarrow> (reply 200 (Json (JObj [])), st)
                       | Inr (Some j) \<Rightarrow> (reply 200 (Json (JObj [(''vault'', j)])), st))
                  | Some PollutedVault \<Rightarrow>
                      (case pollution_json (proto_vault st) of
                         Inl e \<Rightarrow> (Inl e, st)
                       | Inr None \<Rightarrow> (reply 200 Empty, st)
                       | Inr (Some j) \<Rightarrow> (reply 200 (Json j), st)))))"

text \<open>
  \<^verbatim>\<open>POST /updateVault\<close> (lines 92 to 108). The handler awaits twice: \<^verbatim>\<open>loadUsers()\<close> on line
  99, which reads the file, and \<^verbatim>\<open>saveUsers(users)\<close> on line 105, which replaces the file by
  the text of the object \<^verbatim>\<open>users\<close>. \<open>updateVault_loaded\<close> is the handler up to the call of
  \<^verbatim>\<open>saveUsers\<close>, on the state in which the file was read: either the handler ends there,
  with a response or an exception and without a write, or it has the object to write:
  with the new vault when the target of the assignment was the record of a user, and as
  it was read when the target was an inherited object.
\<close>

datatype progress = Ends "exn + response" | Saves "string \<Rightarrow> user option"

definition updateVault_loaded :: "server_state \<Rightarrow> request_body \<Rightarrow> progress \<times> server_state" where
  "updateVault_loaded st b =
     (case map_of b ''username'' of
        None \<Rightarrow> (Ends (reply 400 (Message ''Missing fields'')), st)
      | Some username_v \<Rightarrow>
          if \<not> (truthy username_v \<and> vault_truthy st (vault_of b))
          then (Ends (reply 400 (Message ''Missing fields'')), st)
          else
            (case to_string username_v of
               Inl e \<Rightarrow> (Ends (Inl e), st)
             | Inr k \<Rightarrow>
                 (case users_get st k of
                    None \<Rightarrow> (Ends (reply 404 (Message ''No such user'')), st)
                  | Some (Own u) \<Rightarrow>
                      (case vault_json st (vault_of b) of
                         Inl e \<Rightarrow> (Ends (Inl e), st)
                       | Inr w \<Rightarrow> (Saves ((users_file st)(k \<mapsto> u\<lparr>vault := w\<rparr>)), st))
                  | Some (Builtin f) \<Rightarrow> (Saves (users_file st), st)
                  | Some ObjectPrototype \<Rightarrow>
                      (case vault_of b of
                         OwnVault w \<Rightarrow> (Saves (users_file st), st\<lparr>proto_vault := Polluted w\<rparr>)
                       | InheritedVault \<Rightarrow> (Saves (users_file st), st))
                  | Some PollutedVault \<Rightarrow>
                      (case assign_vault (proto_vault st) (vault_of b) of
                         Inl e \<Rightarrow> (Ends (Inl e), st)
                       | Inr p \<Rightarrow> (Saves (users_file st), st\<lparr>proto_vault := p\<rparr>)))))"

text \<open>
  \<^verbatim>\<open>saveUsers(users)\<close> replaces the content of the file, whatever it is by then, and the
  handler answers \<^verbatim>\<open>{ ok: true }\<close>.
\<close>

definition saveUsers :: "(string \<Rightarrow> user option) \<Rightarrow> server_state \<Rightarrow> server_state" where
  "saveUsers users st = st\<lparr>users_file := users\<rparr>"

text \<open>The handler when no other request is served between its read and its write.\<close>

definition updateVault :: "server_state \<Rightarrow> request_body \<Rightarrow> (exn + response) \<times> server_state" where
  "updateVault st b =
     (case updateVault_loaded st b of
        (Ends r, st') \<Rightarrow> (r, st')
      | (Saves users, st') \<Rightarrow> (reply 200 Ok, saveUsers users st'))"

text \<open>
  The server handles one request while another awaits. In \<open>updateVault_racing st later b\<close>
  the handler reads the file in the state \<open>st\<close>, other requests are then served that write
  the file (and leave \<^verbatim>\<open>Object.prototype\<close> as it is), so that the file holds \<open>later\<close> when the
  handler comes back from its await, and then \<^verbatim>\<open>saveUsers\<close> writes.
\<close>

definition updateVault_racing ::
  "server_state \<Rightarrow> (string \<Rightarrow> user option) \<Rightarrow> request_body \<Rightarrow> (exn + response) \<times> server_state" where
  "updateVault_racing st later b =
     (case updateVault_loaded st b of
        (Ends r, st') \<Rightarrow> (r, st'\<lparr>users_file := later\<rparr>)
      | (Saves users, st') \<Rightarrow> (reply 200 Ok, saveUsers users (st'\<lparr>users_file := later\<rparr>)))"

text \<open>
  \<^verbatim>\<open>POST /register\<close> of \<^verbatim>\<open>copy of the Server/server - Copy.js\<close> (lines 52 to 69) is the same
  handler inside \<^verbatim>\<open>try\<close>: an exception becomes the response 500.
\<close>

definition register_copy :: "server_state \<Rightarrow> request_body \<Rightarrow> (exn + response) \<times> server_state" where
  "register_copy st b =
     (case register st b of
        (Inl e, st') \<Rightarrow> (reply 500 (Message ''Server error''), st')
      | (Inr r, st') \<Rightarrow> (Inr r, st'))"

subsection \<open>States and requests to run the handlers on\<close>

definition fresh :: server_state where
  "fresh = \<lparr>users_file = Map.empty, proto_vault = Unpolluted\<rparr>"

definition sample_vault :: json where
  "sample_vault = JObj [(''iv'', JStr ''AAAAAAAAAAAAAAAA''), (''ciphertext'', JStr ''IQ=='')]"

definition pollute_request :: request_body where
  "pollute_request = [(''username'', JStr ''__proto__''), (''vault'', sample_vault)]"

definition register_without_vault :: request_body where
  "register_without_vault =
     [(''username'', JStr ''eve''), (''salt'', JStr ''c2FsdA==''), (''verifier'', JStr ''dmVy'')]"

definition alice :: user where
  "alice = \<lparr>salt = JStr ''c2FsdEE='', verifier = JStr ''dmVyQQ=='', vault = JStr ''vaultA''\<rparr>"

definition bob :: user where
  "bob = \<lparr>salt = JStr ''c2FsdEI='', verifier = JStr ''dmVyQg=='', vault = JStr ''vaultB''\<rparr>"

definition two_users :: server_state where
  "two_users = \<lparr>users_file = [''alice'' \<mapsto> alice, ''bob'' \<mapsto> bob], proto_vault = Unpolluted\<rparr>"

definition alice_update :: request_body where
  "alice_update = [(''username'', JStr ''alice''), (''vault'', sample_vault)]"

definition alice_overflow :: request_body where
  "alice_overflow = [(''username'', JStr ''alice''), (''vault'', JNum ''Infinity'')]"

definition bob_update :: request_body where
  "bob_update = [(''username'', JStr ''bob''), (''vault'', JStr ''vaultB2'')]"

chapter \<open>Properties\<close>

section \<open>Base64 round trip\<close>

lemma index_of_nth: "distinct xs \<Longrightarrow> i < length xs \<Longrightarrow> index_of (xs ! i) xs = Some i"
proof (induction xs arbitrary: i)
  case Nil
  then show ?case by simp
next
  case (Cons y ys)
  show ?case
  proof (cases i)
    case 0
    then show ?thesis by simp
  next
    case (Suc j)
    with Cons.prems have "ys ! j \<noteq> y" "j < length ys" "distinct ys" by auto
    with Cons.IH[of j] Suc show ?thesis by simp
  qed
qed

lemma length_b64_alphabet: "length b64_alphabet = 64"
  by (simp add: b64_alphabet_def)

lemma distinct_b64_alphabet: "distinct b64_alphabet"
  by (simp add: b64_alphabet_def)

lemma char_sextet_sextet_char: "i < 64 \<Longrightarrow> char_sextet (sextet_char i) = Some i"
  unfolding char_sextet_def sextet_char_def
  by (rule index_of_nth) (simp_all add: distinct_b64_alphabet length_b64_alphabet)

lemma sextet_char_in_alphabet: "i < 64 \<Longrightarrow> sextet_char i \<in> set b64_alphabet"
  by (simp add: sextet_char_def length_b64_alphabet)

lemma alphabet_not_pad: "c \<in> set b64_alphabet \<Longrightarrow> c \<noteq> CHR ''=''"
  by (auto simp: b64_alphabet_def)

lemma alphabet_not_whitespace: "c \<in> set b64_alphabet \<Longrightarrow> \<not> ascii_whitespace c"
  by (auto simp: b64_alphabet_def ascii_whitespace_def)

lemma pad_not_whitespace: "\<not> ascii_whitespace CHR ''=''"
  by (simp add: ascii_whitespace_def)

text \<open>An encoding is its sextets as characters, then its padding.\<close>

lemma encode_groups_sextets:
  "encode_groups xs = map sextet_char (sextets xs) @ replicate (padding xs) CHR ''=''"
  by (induction xs rule: encode_groups.induct) (simp_all add: numeral_2_eq_2)

lemma padding_le: "padding xs \<le> 2"
  by (induction xs rule: padding.induct) simp_all

lemma mod4_Suc4: "Suc (Suc (Suc (Suc n))) mod 4 = n mod 4"
proof -
  have "Suc (Suc (Suc (Suc n))) = n + 4" by simp
  then show ?thesis by (simp only: mod_add_self2)
qed

lemma length_sextets_padding: "(length (sextets xs) + padding xs) mod 4 = 0"
proof (induction xs rule: sextets.induct)
  case (1 a b c rest)
  have "(length (sextets (a # b # c # rest)) + padding (a # b # c # rest)) mod 4
          = Suc (Suc (Suc (Suc (length (sextets rest) + padding rest)))) mod 4"
    by simp
  also have "\<dots> = (length (sextets rest) + padding rest) mod 4"
    by (rule mod4_Suc4)
  finally show ?case using 1 by metis
qed simp_all

lemma length_sextets_mod4: "length (sextets xs) mod 4 \<noteq> 1"
proof (induction xs rule: sextets.induct)
  case (1 a b c rest)
  have "length (sextets (a # b # c # rest)) mod 4
          = Suc (Suc (Suc (Suc (length (sextets rest))))) mod 4"
    by simp
  also have "\<dots> = length (sextets rest) mod 4"
    by (rule mod4_Suc4)
  finally show ?case using 1 by metis
qed simp_all

text \<open>The arithmetic of one group: every sextet is below 64, and the octets come back.\<close>

lemma div16_less: "b < 256 \<Longrightarrow> b div 16 < (16::nat)"
  by (simp add: div_less_iff_less_mult)

lemma div64_less: "c < 256 \<Longrightarrow> c div 64 < (4::nat)"
  by (simp add: div_less_iff_less_mult)

lemma div4_less: "a < 256 \<Longrightarrow> a div 4 < (64::nat)"
  by (simp add: div_less_iff_less_mult)

lemma sextet2_less:
  assumes "b < 256"
  shows "(a mod 4) * 16 + b div 16 < (64::nat)"
proof -
  have "a mod 4 < 4" by simp
  with div16_less[OF assms] show ?thesis by linarith
qed

lemma sextet3_less:
  assumes "c < 256"
  shows "(b mod 16) * 4 + c div 64 < (64::nat)"
proof -
  have "b mod 16 < 16" by simp
  with div64_less[OF assms] show ?thesis by linarith
qed

lemma sextet2_last_less: "(a mod 4) * 16 < (64::nat)"
proof -
  have "a mod 4 < 4" by simp
  then show ?thesis by linarith
qed

lemma sextet3_last_less: "(b mod 16) * 4 < (64::nat)"
proof -
  have "b mod 16 < 16" by simp
  then show ?thesis by linarith
qed

lemma high_part: "y < n \<Longrightarrow> (x * n + y) div n = (x::nat)"
  by simp

lemma low_part: "y < n \<Longrightarrow> (x * n + y) mod n = (y::nat)"
  by simp

lemma octet1: "b < 256 \<Longrightarrow> a div 4 * 4 + (a mod 4 * 16 + b div 16) div 16 = (a::nat)"
  by (simp add: high_part div16_less)

lemma octet2:
  "b < 256 \<Longrightarrow> c < 256 \<Longrightarrow>
   (a mod 4 * 16 + b div 16) mod 16 * 16 + (b mod 16 * 4 + c div 64) div 4 = (b::nat)"
  by (simp add: high_part low_part div16_less div64_less)

lemma octet3: "c < 256 \<Longrightarrow> (b mod 16 * 4 + c div 64) mod 4 * 64 + c mod 64 = (c::nat)"
  by (simp add: low_part div64_less)

lemma octet2_short:
  "b < 256 \<Longrightarrow> (a mod 4 * 16 + b div 16) mod 16 * 16 + (b mod 16 * 4) div 4 = (b::nat)"
  by (simp add: low_part div16_less)

lemma octet1_short: "a div 4 * 4 + (a mod 4 * 16) div 16 = (a::nat)"
  by simp

lemma sextets_bound: "\<forall>x\<in>set xs. x < 256 \<Longrightarrow> \<forall>s\<in>set (sextets xs). s < 64"
proof (induction xs rule: sextets.induct)
  case (1 a b c rest)
  then have "a < 256" "b < 256" "c < 256" "\<forall>s\<in>set (sextets rest). s < 64" by simp_all
  then show ?case by (simp add: div4_less sextet2_less sextet3_less)
next
  case (2 a b)
  then have "a < 256" "b < 256" by simp_all
  then show ?case by (simp add: div4_less sextet2_less sextet3_last_less)
next
  case (3 a)
  then have "a < 256" by simp
  then show ?case by (simp add: div4_less sextet2_last_less)
qed simp

lemma decode_groups_sextets: "\<forall>x\<in>set xs. x < 256 \<Longrightarrow> decode_groups (sextets xs) = xs"
proof (induction xs rule: sextets.induct)
  case (1 a b c rest)
  then have "a < 256" "b < 256" "c < 256" "decode_groups (sextets rest) = rest"
    by simp_all
  then show ?case by (simp add: octet1 octet2 octet3)
next
  case (2 a b)
  then have "a < 256" "b < 256" by simp_all
  then show ?case by (simp add: octet1 octet2_short)
next
  case (3 a)
  show ?case by (simp add: octet1_short)
qed simp

text \<open>Removing the padding of an encoding leaves its characters.\<close>

lemma strip_padding_body:
  assumes chars: "\<forall>c\<in>set cs. c \<noteq> CHR ''=''"
    and k: "k \<le> 2"
    and len: "(length cs + k) mod 4 = 0"
  shows "strip_padding (cs @ replicate k CHR ''='') = cs"
proof -
  consider "k = 0" | "k = 1" | "k = 2" using k by linarith
  then show ?thesis
  proof cases
    case 1
    show ?thesis
    proof (cases cs rule: rev_cases)
      case Nil
      with 1 show ?thesis by (simp add: strip_padding_def)
    next
      case (snoc ys y)
      with chars have "y \<noteq> CHR ''=''" by simp
      with 1 snoc len show ?thesis by (simp add: strip_padding_def)
    qed
  next
    case 2
    with len have "cs \<noteq> []" by auto
    then obtain ys y where snoc: "cs = ys @ [y]" by (cases cs rule: rev_cases) auto
    with chars have "y \<noteq> CHR ''=''" by simp
    with 2 snoc len show ?thesis by (simp add: strip_padding_def butlast_append)
  next
    case 3
    with len show ?thesis by (simp add: strip_padding_def numeral_2_eq_2)
  qed
qed

lemma atob_btoa: "atob (btoa s) = Inr s"
proof -
  let ?xs = "map of_char s :: nat list"
  let ?cs = "map sextet_char (sextets ?xs)"
  let ?k = "padding ?xs"
  have small: "\<forall>x\<in>set ?xs. x < 256" by simp
  have six: "\<forall>i\<in>set (sextets ?xs). i < 64" by (rule sextets_bound[OF small])
  have alpha: "\<forall>c\<in>set ?cs. c \<in> set b64_alphabet"
    using six by (auto simp: sextet_char_in_alphabet)
  have enc: "btoa s = ?cs @ replicate ?k CHR ''=''"
    by (simp add: btoa_def encode_groups_sextets)
  have nows: "filter (\<lambda>c. \<not> ascii_whitespace c) (btoa s) = btoa s"
    unfolding enc using alpha
    by (auto simp: alphabet_not_whitespace pad_not_whitespace filter_id_conv)
  have lenk: "(length ?cs + ?k) mod 4 = 0"
    using length_sextets_padding[of ?xs] by simp
  have kle: "?k \<le> 2" by (rule padding_le)
  have nopad: "\<forall>c\<in>set ?cs. c \<noteq> CHR ''=''"
    using alpha alphabet_not_pad by blast
  have strip: "strip_padding (btoa s) = ?cs"
    unfolding enc by (rule strip_padding_body[OF nopad kle lenk])
  have len1: "length ?cs mod 4 \<noteq> 1"
    using length_sextets_mod4[of ?xs] by simp
  have valid: "\<not> list_ex (\<lambda>c. char_sextet c = None) ?cs"
    using six by (auto simp: list_ex_iff char_sextet_sextet_char)
  have undo: "map (\<lambda>c. the (char_sextet c)) ?cs = sextets ?xs"
    using six by (simp add: map_idI char_sextet_sextet_char)
  have "map char_of (decode_groups (sextets ?xs)) = s"
    by (simp add: decode_groups_sextets[OF small] comp_def)
  then show ?thesis
    using len1 valid undo by (simp add: atob_def nows strip Let_def)
qed

lemma byte_char_byte: "word_of_nat (unat (b :: byte) mod 256) = b"
proof -
  have "unat b < 256" using unsigned_less[of b] by simp
  then show ?thesis by simp
qed

lemma b64_too_long: "max_args < length u8 \<Longrightarrow> b64 max_args u8 = Inl RangeError"
  by (simp add: b64_def)

lemma ub64_btoa: "ub64 (btoa (map (\<lambda>b. char_of (unat b)) u8)) = Inr u8"
  by (simp add: ub64_def atob_btoa comp_def byte_char_byte map_idI)

text \<open>
  Claim C10, as the code has it. The claim is the round trip for every byte array. For
  every byte array that has no more bytes than the engine accepts arguments in one call,
  \<open>b64\<close> returns a string and \<open>ub64\<close> of that string returns the original bytes. (A longer
  array makes \<open>b64\<close> throw.)
\<close>

theorem ub64_b64:
  assumes "length u8 \<le> max_args"
  shows "(case b64 max_args u8 of Inl e \<Rightarrow> Inl e | Inr s \<Rightarrow> ub64 s) = Inr u8"
  using assms by (simp add: b64_def ub64_btoa)

theorem ub64_b64_witness:
  "length [0xFF, 0xFE, 0x00, 0x01 :: byte] \<le> 100000
   \<and> (case b64 100000 [0xFF, 0xFE, 0x00, 0x01] of Inl e \<Rightarrow> Inl e | Inr s \<Rightarrow> ub64 s)
     = Inr [0xFF, 0xFE, 0x00, 0x01]"
proof -
  have len: "length [0xFF, 0xFE, 0x00, 0x01 :: byte] \<le> 100000" by simp
  from ub64_b64[OF len] len show ?thesis by simp
qed

text \<open>
  The claim as it is stated fails: on an engine that accepts 129999 arguments in a call,
  an array of 130000 bytes is not encoded at all, so nothing is there to decode. The same
  holds for every bound and the array one byte longer (\<open>b64_too_long\<close>).
\<close>

theorem b64_range_error_counterexample:
  "b64 129999 (replicate 130000 0) = Inl RangeError
   \<and> (case b64 129999 (replicate 130000 0) of Inl e \<Rightarrow> Inl e | Inr s \<Rightarrow> ub64 s)
       \<noteq> Inr (replicate 130000 0)"
  by (simp add: b64_def)

section \<open>Key derivation\<close>

lemma importKey_PBKDF2_ok:
  "importKey_PBKDF2 d False [DeriveKey]
     = Inr \<lparr>algorithm = PBKDF2, extractable = False, usages = [DeriveKey], handle = d\<rparr>"
  "importKey_PBKDF2 d False [DeriveBits]
     = Inr \<lparr>algorithm = PBKDF2, extractable = False, usages = [DeriveBits], handle = d\<rparr>"
  by (simp_all add: importKey_PBKDF2_def)

lemma pbkdf2Bits_eq:
  "pbkdf2Bits h password sa n =
     (if n = 0 then Inl OperationError else Inr (kdf h (enc_encode password) sa n 256))"
  by (simp add: pbkdf2Bits_def importKey_PBKDF2_ok subtle_deriveBits_def derive_bits_def)

text \<open>The material of a derived key is the output of PBKDF2 at the length of its type.\<close>

lemma deriveKey_handle:
  assumes "subtle_deriveKey h sa n material alg ext us = Inr k"
    and "key_length alg = Inr len"
  shows "handle k = kdf h (handle material) sa n len \<and> n \<noteq> 0"
  using assms
  by (auto simp: subtle_deriveKey_def derive_bits_def import_secret_def
           split: if_splits sum.splits)

text \<open>With the default usages, the two derivations agree on every host, errors included.\<close>

lemma pbkdf2Key_material_eq:
  "map_sum id handle (pbkdf2Key h password sa n default_usage) = pbkdf2Bits h password sa n"
  by (simp add: pbkdf2Bits_eq pbkdf2Key_def importKey_PBKDF2_ok subtle_deriveKey_def
      derive_bits_def import_secret_def default_usage_def)

lemma sample_pbkdf2Key:
  "pbkdf2Key sample_host ''hunter2'' (replicate 16 7) default_iterations default_usage
     = Inr \<lparr>algorithm = AES_GCM 256, extractable = False, usages = [Encrypt, Decrypt],
            handle = replicate 32 0x28\<rparr>"
  by (simp add: pbkdf2Key_def importKey_PBKDF2_ok subtle_deriveKey_def derive_bits_def
      import_secret_def sample_host_def sample_kdf_def enc_encode_def sum_list_replicate
      default_iterations_def default_usage_def)

text \<open>
  Claim C2, as the code has it. The claim says that the verifier is a derivation
  independent of the encryption key and never equals the raw key material. In the code
  both come from PBKDF2 with the same password, salt, iteration count, hash and length:
  whenever \<open>pbkdf2Key\<close> returns a key (with any list of usages), \<open>pbkdf2Bits\<close> with the same
  password, salt and iteration count returns exactly the raw material of that key.
\<close>

theorem verifier_is_key_material:
  assumes "pbkdf2Key h password sa n us = Inr k"
  shows "pbkdf2Bits h password sa n = Inr (handle k)"
proof -
  let ?m = "\<lparr>algorithm = PBKDF2, extractable = False, usages = [DeriveKey],
             handle = enc_encode password\<rparr>"
  from assms have "subtle_deriveKey h sa n ?m (AES_GCM 256) False us = Inr k"
    by (simp add: pbkdf2Key_def importKey_PBKDF2_ok)
  from deriveKey_handle[OF this, of 256]
  have "handle k = kdf h (enc_encode password) sa n 256" "n \<noteq> 0"
    by simp_all
  then show ?thesis by (simp add: pbkdf2Bits_eq)
qed

theorem verifier_is_key_material_witness:
  "pbkdf2Key sample_host ''hunter2'' (replicate 16 7) default_iterations default_usage
     = Inr \<lparr>algorithm = AES_GCM 256, extractable = False, usages = [Encrypt, Decrypt],
            handle = replicate 32 0x28\<rparr>
   \<and> pbkdf2Bits sample_host ''hunter2'' (replicate 16 7) default_iterations
     = Inr (replicate 32 0x28)"
  using verifier_is_key_material[OF sample_pbkdf2Key] sample_pbkdf2Key by simp

text \<open>
  The claim as it is stated fails: for the password and the salt of the spec's example
  scenario, the verifier and the material of the encryption key are the same 32 bytes.
\<close>

theorem verifier_separation_counterexample:
  "pbkdf2Bits sample_host ''correct horse battery staple'' (replicate 16 0) default_iterations
     = Inr (replicate 32 0xE7)
   \<and> map_sum id handle
        (pbkdf2Key sample_host ''correct horse battery staple'' (replicate 16 0)
           default_iterations default_usage)
     = Inr (replicate 32 0xE7)"
  by (simp add: pbkdf2Bits_eq pbkdf2Key_def importKey_PBKDF2_ok subtle_deriveKey_def
      derive_bits_def import_secret_def sample_host_def sample_kdf_def enc_encode_def
      sum_list_replicate default_iterations_def default_usage_def)

text \<open>What \<open>deriveEncAndMac\<close> returns, on every host: one PBKDF2 output, in two keys.\<close>

lemma deriveEncAndMac_eq:
  "deriveEncAndMac h password sa n =
     (if n = 0 then Inl OperationError
      else Inr \<lparr>aesKey = \<lparr>algorithm = AES_GCM 256, extractable = False,
                             usages = [Encrypt, Decrypt],
                             handle = kdf h (enc_encode password) sa n 256\<rparr>,
                  macKey = \<lparr>algorithm = HMAC 256, extractable = False,
                             usages = [Sign, Verify],
                             handle = kdf h (enc_encode password) sa n 256\<rparr>\<rparr>)"
  by (simp add: deriveEncAndMac_def importKey_PBKDF2_ok subtle_deriveKey_def derive_bits_def
      import_secret_def)

lemma sample_deriveEncAndMac:
  "deriveEncAndMac sample_host ''hunter2'' (replicate 16 7) default_iterations
     = Inr \<lparr>aesKey = \<lparr>algorithm = AES_GCM 256, extractable = False,
                       usages = [Encrypt, Decrypt], handle = replicate 32 0x28\<rparr>,
            macKey = \<lparr>algorithm = HMAC 256, extractable = False,
                       usages = [Sign, Verify], handle = replicate 32 0x28\<rparr>\<rparr>"
  by (simp add: deriveEncAndMac_def importKey_PBKDF2_ok subtle_deriveKey_def derive_bits_def
      import_secret_def sample_host_def sample_kdf_def enc_encode_def sum_list_replicate
      default_iterations_def)

text \<open>
  Claim C3, evaluated on the code. The claim says that the raw material of the AES key
  and of the HMAC key that \<open>deriveEncAndMac\<close> returns is not identical. The two calls of
  \<^verbatim>\<open>deriveKey\<close> share the material, the salt, the iteration count, the hash and the length
  (256 bits), so whenever \<open>deriveEncAndMac\<close> returns, the two keys have the same material.
\<close>

theorem deriveEncAndMac_same_material:
  assumes "deriveEncAndMac h password sa n = Inr ks"
  shows "handle (aesKey ks) = handle (macKey ks)"
proof -
  let ?m = "\<lparr>algorithm = PBKDF2, extractable = False, usages = [DeriveKey],
             handle = enc_encode password\<rparr>"
  from assms obtain a m where
    a: "subtle_deriveKey h sa n ?m (AES_GCM 256) False [Encrypt, Decrypt] = Inr a"
    and m: "subtle_deriveKey h sa n ?m (HMAC 256) False [Sign, Verify] = Inr m"
    and eq: "ks = \<lparr>aesKey = a, macKey = m\<rparr>"
    by (auto simp: deriveEncAndMac_def importKey_PBKDF2_ok split: sum.splits)
  from deriveKey_handle[OF a, of 256] deriveKey_handle[OF m, of 256] eq
  show ?thesis by simp
qed

theorem deriveEncAndMac_same_material_witness:
  "deriveEncAndMac sample_host ''hunter2'' (replicate 16 7) default_iterations
     = Inr \<lparr>aesKey = \<lparr>algorithm = AES_GCM 256, extractable = False,
                       usages = [Encrypt, Decrypt], handle = replicate 32 0x28\<rparr>,
            macKey = \<lparr>algorithm = HMAC 256, extractable = False,
                       usages = [Sign, Verify], handle = replicate 32 0x28\<rparr>\<rparr>
   \<and> handle (aesKey \<lparr>aesKey = \<lparr>algorithm = AES_GCM 256, extractable = False,
                       usages = [Encrypt, Decrypt], handle = replicate 32 0x28\<rparr>,
            macKey = \<lparr>algorithm = HMAC 256, extractable = False,
                       usages = [Sign, Verify], handle = replicate 32 0x28\<rparr>\<rparr>)
     = handle (macKey \<lparr>aesKey = \<lparr>algorithm = AES_GCM 256, extractable = False,
                       usages = [Encrypt, Decrypt], handle = replicate 32 0x28\<rparr>,
            macKey = \<lparr>algorithm = HMAC 256, extractable = False,
                       usages = [Sign, Verify], handle = replicate 32 (0x28::byte)\<rparr>\<rparr>)"
  using deriveEncAndMac_same_material[OF sample_deriveEncAndMac] sample_deriveEncAndMac
  by simp

section \<open>The vault codec\<close>

text \<open>
  \<open>aesGcmEncryptJSON\<close> gives the same result for every object: no function can recover
  the entries from it.
\<close>

lemma aesGcmEncryptJSON_ignores_obj:
  "aesGcmEncryptJSON h obj key = aesGcmEncryptJSON h obj' key"
  by (simp add: aesGcmEncryptJSON_def)

lemma aesGcmEncryptJSON_no_inverse:
  "\<not> (\<forall>entries. decryptVault (aesGcmEncryptJSON h entries key) key = Inr entries)"
proof
  assume all: "\<forall>entries. decryptVault (aesGcmEncryptJSON h entries key) key = Inr entries"
  from all have "decryptVault (aesGcmEncryptJSON h (JArr []) key) key = Inr (JArr [])"
    by (rule spec)
  moreover from all have "decryptVault (aesGcmEncryptJSON h JNull key) key = Inr JNull"
    by (rule spec)
  moreover have "aesGcmEncryptJSON h (JArr []) key = aesGcmEncryptJSON h JNull key"
    by (rule aesGcmEncryptJSON_ignores_obj)
  ultimately show False by simp
qed

text \<open>
  Claim C1, evaluated on the code. The claim is the round trip of the vault: decrypting
  what encrypting the entries \<open>E\<close> under \<open>k\<close> produced gives \<open>E\<close>. The function that the
  module exports for encrypting the entries does not produce a vault: where the global
  object has no binding \<^verbatim>\<open>iv\<close>, it throws \<^verbatim>\<open>ReferenceError: iv is not defined\<close> for every
  object and every key.
\<close>

theorem aesGcmEncryptJSON_unbound_iv:
  assumes "global_binding h ''iv'' = None"
  shows "aesGcmEncryptJSON h obj key = Inl (ReferenceError ''iv'')"
  using assms by (simp add: aesGcmEncryptJSON_def resolve_def)

theorem aesGcmEncryptJSON_unbound_iv_witness:
  "global_binding sample_host ''iv'' = None
   \<and> aesGcmEncryptJSON sample_host
        (JArr [JObj [(''site'', JStr ''example.com''), (''user'', JStr ''a''), (''pass'', JStr ''b'')]])
        (sample_key 1)
     = Inl (ReferenceError ''iv'')"
proof -
  have g: "global_binding sample_host ''iv'' = None" by (simp add: sample_host_def)
  from aesGcmEncryptJSON_unbound_iv[OF g] g show ?thesis by simp
qed

text \<open>
  The pair of helpers on bytes does make the round trip, for every host whose decryption
  inverts its encryption and whose sealed data is at least a tag long, and the sample
  host is one.
\<close>

lemma aesGcmDecryptBytes_passes_through:
  "aesGcmDecryptBytes h nonce ct key = subtle_decrypt h nonce key ct"
  by (simp add: aesGcmDecryptBytes_def split: sum.splits)

lemma randomBytes_12: "randomBytes 12 tape = (Inr (map tape [0..<12]), (\<lambda>i. tape (i + 12)))"
  by (simp add: randomBytes_def)

lemma aesGcmEncryptBytes_eq:
  "aesGcmEncryptBytes h data key tape =
     (case subtle_encrypt h (map tape [0..<12]) key data of
        Inl e \<Rightarrow> Inl e
      | Inr ct \<Rightarrow> Inr \<lparr>iv = map tape [0..<12], ciphertext = ct\<rparr>,
      \<lambda>i. tape (i + 12))"
  by (simp add: aesGcmEncryptBytes_def randomBytes_12 split: sum.splits)

lemma aesGcm_bytes_round_trip:
  assumes inv: "\<And>k nonce p. gcm_open h k nonce (gcm_seal h k nonce p) = Some p"
    and tag: "\<And>k nonce p. 16 \<le> length (gcm_seal h k nonce p)"
    and key: "algorithm key = AES_GCM n" "Encrypt \<in> set (usages key)" "Decrypt \<in> set (usages key)"
    and len: "length data \<le> 2 ^ 39 - 256"
  shows "\<exists>v. fst (aesGcmEncryptBytes h data key tape) = Inr v
             \<and> aesGcmDecryptBytes h (iv v) (ciphertext v) key = Inr data"
proof -
  let ?iv = "map tape [0..<12]"
  let ?ct = "gcm_seal h (handle key) ?iv data"
  have enc: "subtle_encrypt h ?iv key data = Inr ?ct"
    using key len by (simp add: subtle_encrypt_def)
  have "\<not> length ?ct < 16" using tag[of "handle key" ?iv data] by simp
  then have dec: "subtle_decrypt h ?iv key ?ct = Inr data"
    using key inv by (simp add: subtle_decrypt_def)
  show ?thesis
    by (simp add: aesGcmEncryptBytes_eq enc aesGcmDecryptBytes_passes_through dec)
qed

lemma sample_open_seal: "gcm_open sample_host k nonce (gcm_seal sample_host k nonce p) = Some p"
  by (simp add: sample_host_def sample_open_def sample_seal_def sample_tag_def comp_def)

lemma sample_seal_length: "16 \<le> length (gcm_seal sample_host k nonce p)"
  by (simp add: sample_host_def sample_seal_def sample_tag_def)

lemma sample_wrong_key:
  "gcm_open sample_host (handle (sample_key 2)) (replicate 12 0)
     (gcm_seal sample_host (handle (sample_key 1)) (replicate 12 0) [1, 2, 3]) = None"
  by (simp add: sample_host_def sample_key_def sample_open_def sample_seal_def sample_tag_def
      sample_mask_def sum_list_replicate)

text \<open>
  Claim C4, as the code has it. The claim says that a failed tag verification is returned
  as a distinct \<^verbatim>\<open>AuthenticationFailure\<close> and not as a generic exception. The code fails
  closed, and does so by the exception of the host: for every AES-GCM key that may
  decrypt, when the data is shorter than a tag or the tag does not verify,
  \<open>aesGcmDecryptBytes\<close> returns no plaintext and rejects with the \<open>OperationError\<close> of
  \<^verbatim>\<open>crypto.subtle.decrypt\<close>, which it passes on as it is.
\<close>

theorem decrypt_fails_closed:
  assumes "algorithm key = AES_GCM n"
    and "Decrypt \<in> set (usages key)"
    and "length ct < 16 \<or> gcm_open h (handle key) nonce ct = None"
  shows "aesGcmDecryptBytes h nonce ct key = Inl OperationError
         \<and> (\<forall>pt. aesGcmDecryptBytes h nonce ct key \<noteq> Inr pt)"
proof -
  from assms have "subtle_decrypt h nonce key ct = Inl OperationError"
    by (auto simp: subtle_decrypt_def)
  then show ?thesis by (simp add: aesGcmDecryptBytes_passes_through)
qed

theorem decrypt_fails_closed_witness:
  "algorithm (sample_key 2) = AES_GCM 256
   \<and> Decrypt \<in> set (usages (sample_key 2))
   \<and> gcm_open sample_host (handle (sample_key 2)) (replicate 12 0)
        (gcm_seal sample_host (handle (sample_key 1)) (replicate 12 0) [1, 2, 3]) = None
   \<and> aesGcmDecryptBytes sample_host (replicate 12 0)
        (gcm_seal sample_host (handle (sample_key 1)) (replicate 12 0) [1, 2, 3]) (sample_key 2)
       = Inl OperationError"
proof -
  have a: "algorithm (sample_key 2) = AES_GCM 256" by (simp add: sample_key_def)
  have u: "Decrypt \<in> set (usages (sample_key 2))" by (simp add: sample_key_def)
  from decrypt_fails_closed[OF a u disjI2[OF sample_wrong_key]] a u sample_wrong_key
  show ?thesis by simp
qed

text \<open>
  The claim as it is stated fails: bytes sealed under one key and opened under another
  are refused with \<open>OperationError\<close>, which is not \<open>AuthenticationFailure\<close>.
\<close>

theorem no_authentication_failure_counterexample:
  "aesGcmDecryptBytes sample_host (replicate 12 0)
     (gcm_seal sample_host (handle (sample_key 1)) (replicate 12 0) [1, 2, 3]) (sample_key 2)
     = Inl OperationError
   \<and> aesGcmDecryptBytes sample_host (replicate 12 0)
     (gcm_seal sample_host (handle (sample_key 1)) (replicate 12 0) [1, 2, 3]) (sample_key 2)
     \<noteq> Inl AuthenticationFailure"
proof -
  have "aesGcmDecryptBytes sample_host (replicate 12 0)
     (gcm_seal sample_host (handle (sample_key 1)) (replicate 12 0) [1, 2, 3]) (sample_key 2)
     = Inl OperationError"
    using sample_wrong_key
    by (simp add: aesGcmDecryptBytes_passes_through subtle_decrypt_def sample_key_def)
  then show ?thesis by (simp add: AuthenticationFailure_def)
qed










text \<open>
  How often the draws of two calls are the same: the first two calls share the first 24
  bytes of the source, and of the \<open>256 ^ 24\<close> values of these bytes, \<open>256 ^ 12\<close> give both
  calls the same IV. On a source that gives every value with the same probability that
  is a share of \<open>1 / 2 ^ 96\<close>.
\<close>

lemma first_two_draws:
  "map tape [0..<12] = take 12 (map tape [0..<24])"
  "map tape [12..<24] = drop 12 (map tape [0..<24])"
  by (simp_all only: take_map drop_map take_upt drop_upt) simp_all

lemma card_bytes: "card {t :: bytes. length t = n} = 256 ^ n"
proof -
  have "{t :: bytes. length t = n} = {t. set t \<subseteq> UNIV \<and> length t = n}" by simp
  moreover have "card {t :: bytes. set t \<subseteq> UNIV \<and> length t = n} = card (UNIV :: byte set) ^ n"
    by (rule card_lists_length_eq) simp
  moreover have "card (UNIV :: byte set) = 256" by (simp add: card_word)
  ultimately show ?thesis by simp
qed

lemma card_equal_draws:
  "card {t :: bytes. length t = 24 \<and> take 12 t = drop 12 t} = 256 ^ 12"
proof -
  have "{t :: bytes. length t = 24 \<and> take 12 t = drop 12 t} = (\<lambda>x. x @ x) ` {x. length x = 12}"
  proof (intro set_eqI iffI)
    fix t :: bytes assume "t \<in> {t. length t = 24 \<and> take 12 t = drop 12 t}"
    then have l: "length t = 24" and e: "take 12 t = drop 12 t" by simp_all
    have "t = take 12 t @ drop 12 t" by simp
    with e have "t = take 12 t @ take 12 t" by simp
    moreover from l have "length (take 12 t) = 12" by simp
    ultimately show "t \<in> (\<lambda>x. x @ x) ` {x. length x = 12}" by blast
  next
    fix t :: bytes assume "t \<in> (\<lambda>x. x @ x) ` {x. length x = 12}"
    then show "t \<in> {t. length t = 24 \<and> take 12 t = drop 12 t}" by auto
  qed
  moreover have "inj_on (\<lambda>x :: bytes. x @ x) {x. length x = 12}"
    by (auto simp: inj_on_def)
  ultimately show ?thesis by (simp add: card_image card_bytes)
qed

section \<open>Signatures\<close>

lemma genEcdsaKeyPair_eq:
  "genEcdsaKeyPair e secret
     = Inr \<lparr>publicKey = \<lparr>algorithm = ECDSA Public, extractable = True, usages = [Verify],
                           handle = ecdsa_public e secret\<rparr>,
            privateKey = \<lparr>algorithm = ECDSA Private, extractable = True, usages = [Sign],
                            handle = secret\<rparr>\<rparr>"
  by (simp add: genEcdsaKeyPair_def generateKey_ECDSA_def)

lemma ecdsaSign_private:
  "ecdsaSign e \<lparr>algorithm = ECDSA Private, extractable = True, usages = [Sign], handle = secret\<rparr>
     dataBytes nonce
   = Inr (ecdsa_sign e secret nonce dataBytes)"
  by (simp add: ecdsaSign_def subtle_sign_def)

text \<open>
  A key without the \<^verbatim>\<open>verify\<close> usage, a private key and a key of another algorithm make
  \<open>ecdsaVerify\<close> reject, whatever the data and the signature are.
\<close>

lemma ecdsaVerify_without_usage:
  "Verify \<notin> set (usages key) \<Longrightarrow> ecdsaVerify e key dataBytes sg = Inl InvalidAccessError"
  by (simp add: ecdsaVerify_def subtle_verify_def split: key_alg.splits)

lemma ecdsaVerify_other_key:
  "algorithm key \<noteq> ECDSA Public \<Longrightarrow> ecdsaVerify e key dataBytes sg = Inl InvalidAccessError"
  by (simp add: ecdsaVerify_def subtle_verify_def split: key_alg.splits)

text \<open>The keys that \<open>genEcdsaKeyPair\<close> returns sign and verify without an exception.\<close>

lemma ecdsa_pair_verifies:
  assumes "genEcdsaKeyPair e secret = Inr pair"
  shows "\<exists>sg. ecdsaSign e (privateKey pair) dataBytes nonce = Inr sg
              \<and> sg = ecdsa_sign e secret nonce dataBytes
              \<and> ecdsaVerify e (publicKey pair) dataBytes sg
                  = Inr (ecdsa_check e (ecdsa_public e secret) sg dataBytes)"
  using assms
  by (auto simp: genEcdsaKeyPair_eq ecdsaSign_private ecdsaVerify_def subtle_verify_def)





section \<open>The backend\<close>

subsection \<open>Registration\<close>

lemma updateVault_pollutes:
  "updateVault fresh pollute_request
     = (Inr \<lparr>status = 200, payload = Ok\<rparr>, fresh\<lparr>proto_vault := Polluted sample_vault\<rparr>)"
  by (simp add: updateVault_def updateVault_loaded_def saveUsers_def pollute_request_def
      fresh_def vault_of_def sample_vault_def users_get_def reply_def)

lemma polluted_state:
  "snd (updateVault fresh pollute_request)
     = \<lparr>users_file = Map.empty, proto_vault = Polluted sample_vault\<rparr>"
  by (simp add: updateVault_pollutes) (simp add: fresh_def)

lemma register_in_polluted_state:
  "register \<lparr>users_file = Map.empty, proto_vault = Polluted sample_vault\<rparr> register_without_vault
     = (Inr \<lparr>status = 200, payload = Ok\<rparr>,
        \<lparr>users_file = [''eve'' \<mapsto> \<lparr>salt = JStr ''c2FsdA=='', verifier = JStr ''dmVy'',
                                   vault = sample_vault\<rparr>],
         proto_vault = Polluted sample_vault\<rparr>)"
  by (simp add: register_def register_without_vault_def vault_of_def sample_vault_def
      users_get_def reply_def object_prototype_functions_def)

text \<open>
  Claim C7, evaluated on the code. The claim says that \<^verbatim>\<open>/register\<close> rejects every request
  in which one of \<^verbatim>\<open>username\<close>, \<^verbatim>\<open>salt\<close>, \<^verbatim>\<open>verifier\<close>, \<^verbatim>\<open>vault\<close> is missing, and stores a
  record only when all four are present. After one request to \<^verbatim>\<open>/updateVault\<close> with the
  username \<^verbatim>\<open>__proto__\<close> on a new server, a registration whose body has no \<^verbatim>\<open>vault\<close> is
  answered with \<^verbatim>\<open>{ ok: true }\<close>, and a record is stored for it whose vault is the one of
  the earlier request.
\<close>

theorem register_accepts_missing_vault:
  "map_of register_without_vault ''vault'' = None
   \<and> register (snd (updateVault fresh pollute_request)) register_without_vault
     = (Inr \<lparr>status = 200, payload = Ok\<rparr>,
        \<lparr>users_file = [''eve'' \<mapsto> \<lparr>salt = JStr ''c2FsdA=='', verifier = JStr ''dmVy'',
                                   vault = sample_vault\<rparr>],
         proto_vault = Polluted sample_vault\<rparr>)"
  by (simp add: polluted_state register_in_polluted_state) (simp add: register_without_vault_def)

text \<open>The handler of the copy does the same.\<close>

lemma register_copy_accepts_missing_vault:
  "register_copy (snd (updateVault fresh pollute_request)) register_without_vault
     = (Inr \<lparr>status = 200, payload = Ok\<rparr>,
        \<lparr>users_file = [''eve'' \<mapsto> \<lparr>salt = JStr ''c2FsdA=='', verifier = JStr ''dmVy'',
                                   vault = sample_vault\<rparr>],
         proto_vault = Polluted sample_vault\<rparr>)"
  by (simp add: polluted_state register_in_polluted_state register_copy_def)

text \<open>
  While \<^verbatim>\<open>Object.prototype\<close> has no \<^verbatim>\<open>vault\<close>, the handler does what the claim says: a
  missing field is answered with 400, a registered username with 409, and a record is
  stored only from a body that has all four fields, under a key that had no record.
\<close>

lemma register_missing_field:
  assumes "proto_vault st = Unpolluted"
    and "map_of b ''username'' = None \<or> map_of b ''salt'' = None
         \<or> map_of b ''verifier'' = None \<or> map_of b ''vault'' = None"
  shows "register st b = (Inr \<lparr>status = 400, payload = Message ''Missing fields''\<rparr>, st)"
  using assms
  by (auto simp: register_def reply_def vault_of_def split: option.splits)

lemma register_existing_user:
  assumes "map_of b ''username'' = Some n" "truthy n" "to_string n = Inr k"
    and "map_of b ''salt'' = Some s" "truthy s"
    and "map_of b ''verifier'' = Some v" "truthy v"
    and "map_of b ''vault'' = Some w" "truthy w"
    and "users_file st k = Some u"
  shows "register st b = (Inr \<lparr>status = 409, payload = Message ''User exists''\<rparr>, st)"
  using assms
  by (simp add: register_def reply_def vault_of_def users_get_def)

lemma register_stores:
  assumes "register st b = (Inr r, st')" and "status r = 200"
    and "proto_vault st = Unpolluted"
  shows "\<exists>n s v w k. map_of b ''username'' = Some n \<and> truthy n
           \<and> map_of b ''salt'' = Some s \<and> truthy s \<and> map_of b ''verifier'' = Some v \<and> truthy v
           \<and> map_of b ''vault'' = Some w \<and> truthy w \<and> to_string n = Inr k
           \<and> users_file st k = None
           \<and> st' = st\<lparr>users_file := (users_file st)
                        (k \<mapsto> \<lparr>salt = stored s, verifier = stored v, vault = stored w\<rparr>)\<rparr>"
  using assms
  by (auto simp: register_def reply_def vault_of_def users_get_def
           split: option.splits sum.splits if_splits)

subsection \<open>Error responses\<close>

lemma register_error_unchanged:
  "register st b = (Inr r, st') \<Longrightarrow> status r \<noteq> 200 \<Longrightarrow> st' = st"
  by (auto simp: register_def reply_def split: option.splits sum.splits if_splits)

lemma login_unchanged: "login st b = (r, st') \<Longrightarrow> st' = st"
  by (auto simp: login_def reply_def split: option.splits sum.splits if_splits member.splits)

lemma updateVault_error_unchanged:
  "updateVault st b = (Inr r, st') \<Longrightarrow> status r \<noteq> 200 \<Longrightarrow> st' = st"
  by (auto simp: updateVault_def updateVault_loaded_def saveUsers_def reply_def
           split: option.splits sum.splits if_splits member.splits vault_arg.splits)

lemma register_duplicate:
  "register two_users
     [(''username'', JStr ''alice''), (''salt'', JStr ''eA==''), (''verifier'', JStr ''eQ==''),
      (''vault'', sample_vault)]
   = (Inr \<lparr>status = 409, payload = Message ''User exists''\<rparr>, two_users)"
  by (simp add: register_def two_users_def vault_of_def sample_vault_def users_get_def reply_def)

lemma login_unknown:
  "login two_users [(''username'', JStr ''carol'')]
   = (Inr \<lparr>status = 404, payload = Message ''No such user''\<rparr>, two_users)"
  by (simp add: login_def two_users_def users_get_def reply_def object_prototype_functions_def)

lemma updateVault_without_vault:
  "updateVault two_users [(''username'', JStr ''alice'')]
   = (Inr \<lparr>status = 400, payload = Message ''Missing fields''\<rparr>, two_users)"
  by (simp add: updateVault_def updateVault_loaded_def two_users_def vault_of_def reply_def)

text \<open>
  Claim C8. When a request to \<^verbatim>\<open>/register\<close>, \<^verbatim>\<open>/login\<close> or \<^verbatim>\<open>/updateVault\<close> is answered with
  status 400, 404 or 409, the users database after the request is the users database
  before it.
\<close>

theorem error_response_leaves_users:
  assumes "status r = 400 \<or> status r = 404 \<or> status r = 409"
  shows "(fst (register st b) = Inr r \<longrightarrow> users_file (snd (register st b)) = users_file st)
       \<and> (fst (login st b) = Inr r \<longrightarrow> users_file (snd (login st b)) = users_file st)
       \<and> (fst (updateVault st b) = Inr r
            \<longrightarrow> users_file (snd (updateVault st b)) = users_file st)"
proof -
  from assms have err: "status r \<noteq> 200" by auto
  have "fst (register st b) = Inr r \<longrightarrow> snd (register st b) = st"
    using register_error_unchanged[of st b r "snd (register st b)"] err
    by (metis prod.collapse)
  moreover have "snd (login st b) = st"
    using login_unchanged[of st b "fst (login st b)" "snd (login st b)"] by simp
  moreover have "fst (updateVault st b) = Inr r \<longrightarrow> snd (updateVault st b) = st"
    using updateVault_error_unchanged[of st b r "snd (updateVault st b)"] err
    by (metis prod.collapse)
  ultimately show ?thesis by simp
qed

theorem error_response_leaves_users_witness:
  "fst (register two_users
          [(''username'', JStr ''alice''), (''salt'', JStr ''eA==''), (''verifier'', JStr ''eQ==''),
           (''vault'', sample_vault)])
     = Inr \<lparr>status = 409, payload = Message ''User exists''\<rparr>
   \<and> users_file (snd (register two_users
          [(''username'', JStr ''alice''), (''salt'', JStr ''eA==''), (''verifier'', JStr ''eQ==''),
           (''vault'', sample_vault)]))
     = users_file two_users
   \<and> fst (login two_users [(''username'', JStr ''carol'')])
     = Inr \<lparr>status = 404, payload = Message ''No such user''\<rparr>
   \<and> users_file (snd (login two_users [(''username'', JStr ''carol'')])) = users_file two_users
   \<and> fst (updateVault two_users [(''username'', JStr ''alice'')])
     = Inr \<lparr>status = 400, payload = Message ''Missing fields''\<rparr>
   \<and> users_file (snd (updateVault two_users [(''username'', JStr ''alice'')]))
     = users_file two_users"
proof -
  let ?dup = "[(''username'', JStr ''alice''), (''salt'', JStr ''eA==''), (''verifier'', JStr ''eQ==''),
           (''vault'', sample_vault)]"
  let ?r409 = "\<lparr>status = 409, payload = Message ''User exists''\<rparr>"
  let ?r404 = "\<lparr>status = 404, payload = Message ''No such user''\<rparr>"
  let ?r400 = "\<lparr>status = 400, payload = Message ''Missing fields''\<rparr>"
  have s409: "status ?r409 = 400 \<or> status ?r409 = 404 \<or> status ?r409 = 409" by simp
  have s404: "status ?r404 = 400 \<or> status ?r404 = 404 \<or> status ?r404 = 409" by simp
  have s400: "status ?r400 = 400 \<or> status ?r400 = 404 \<or> status ?r400 = 409" by simp
  have a: "fst (register two_users ?dup) = Inr ?r409" by (simp add: register_duplicate)
  have b: "fst (login two_users [(''username'', JStr ''carol'')]) = Inr ?r404"
    by (simp add: login_unknown)
  have c: "fst (updateVault two_users [(''username'', JStr ''alice'')]) = Inr ?r400"
    by (simp add: updateVault_without_vault)
  from error_response_leaves_users[OF s409, of two_users ?dup] a
  have a': "users_file (snd (register two_users ?dup)) = users_file two_users" by blast
  from error_response_leaves_users[OF s404, of two_users "[(''username'', JStr ''carol'')]"] b
  have b': "users_file (snd (login two_users [(''username'', JStr ''carol'')])) = users_file two_users"
    by blast
  from error_response_leaves_users[OF s400, of two_users "[(''username'', JStr ''alice'')]"] c
  have c': "users_file (snd (updateVault two_users [(''username'', JStr ''alice'')]))
              = users_file two_users"
    by blast
  from a a' b b' c c' show ?thesis by blast
qed

subsection \<open>Replacing a vault\<close>

lemma stored_finite: "finite_json v \<Longrightarrow> stored v = v"
proof (induction v)
  case (JArr xs)
  then show ?case by (simp add: list_all_iff map_idI)
next
  case (JObj fs)
  have "map (\<lambda>f. (fst f, stored (snd f))) fs = map (\<lambda>f. f) fs"
  proof (rule map_cong[OF refl])
    fix f assume f: "f \<in> set fs"
    with JObj.prems have "finite_json (snd f)" by (simp add: list_all_iff)
    with JObj.IH[of f "snd f"] f have "stored (snd f) = snd f"
      by (cases f) simp
    then show "(fst f, stored (snd f)) = f" by (cases f) simp
  qed
  then show ?case by simp
qed simp_all

lemma updateVault_loaded_own:
  assumes "map_of b ''username'' = Some n" and "to_string n = Inr u"
    and "users_file st u = Some old" and "map_of b ''vault'' = Some v"
  shows "updateVault_loaded st b
         = (if truthy n \<and> truthy v
            then (Saves ((users_file st)(u \<mapsto> old\<lparr>vault := stored v\<rparr>)), st)
            else (Ends (Inr \<lparr>status = 400, payload = Message ''Missing fields''\<rparr>), st))"
  using assms by (simp add: updateVault_loaded_def vault_of_def users_get_def reply_def)

text \<open>With nothing written in between, the racing handler is the handler.\<close>

lemma updateVault_racing_alone: "updateVault_racing st (users_file st) b = updateVault st b"
proof -
  have same: "users_file (snd (updateVault_loaded st b)) = users_file st"
    by (auto simp: updateVault_loaded_def
             split: option.splits sum.splits if_splits member.splits vault_arg.splits)
  obtain p st' where run: "updateVault_loaded st b = (p, st')" by (cases "updateVault_loaded st b")
  with same have "st'\<lparr>users_file := users_file st\<rparr> = st'" by simp
  with run show ?thesis
    by (simp add: updateVault_racing_def updateVault_def split: progress.splits)
qed

lemma updateVault_racing_alice:
  "updateVault_racing two_users later alice_update
   = (Inr \<lparr>status = 200, payload = Ok\<rparr>,
      two_users\<lparr>users_file := (users_file two_users)(''alice'' \<mapsto> alice\<lparr>vault := sample_vault\<rparr>)\<rparr>)"
  by (simp add: updateVault_racing_def updateVault_loaded_def saveUsers_def alice_update_def
      two_users_def vault_of_def sample_vault_def users_get_def reply_def)

lemma updateVault_bob:
  "updateVault two_users bob_update
   = (Inr \<lparr>status = 200, payload = Ok\<rparr>,
      two_users\<lparr>users_file := (users_file two_users)(''bob'' \<mapsto> bob\<lparr>vault := JStr ''vaultB2''\<rparr>)\<rparr>)"
  by (simp add: updateVault_def updateVault_loaded_def saveUsers_def bob_update_def
      two_users_def vault_of_def users_get_def reply_def)

lemma updateVault_overflow:
  "updateVault two_users alice_overflow
   = (Inr \<lparr>status = 200, payload = Ok\<rparr>,
      two_users\<lparr>users_file := (users_file two_users)(''alice'' \<mapsto> alice\<lparr>vault := JNull\<rparr>)\<rparr>)"
  by (simp add: updateVault_def updateVault_loaded_def saveUsers_def alice_overflow_def
      two_users_def vault_of_def users_get_def reply_def)

text \<open>
  Claim C9, as the code has it. The claim says that a successful \<^verbatim>\<open>/updateVault\<close> request for
  an existing username \<open>u\<close> with the vault \<open>v\<close> replaces the vault of the record of \<open>u\<close> by
  \<open>v\<close> and leaves everything else unchanged. What the code does: a successful request for
  a username that has a record, with the vault \<open>v\<close> in its body, leaves the file as the
  request read it, except for the vault of that record, which becomes the image of \<open>v\<close> in
  \<^verbatim>\<open>JSON.stringify\<close>. The salt and the verifier of the record and the records under all
  other keys are as the request read them, whatever other requests wrote between its
  read and its write; \<^verbatim>\<open>Object.prototype\<close> is as before.
\<close>

theorem updateVault_frame:
  assumes "updateVault_racing st later b = (Inr r, st')" and "status r = 200"
    and "map_of b ''username'' = Some n" and "to_string n = Inr u"
    and "users_file st u = Some old"
    and "map_of b ''vault'' = Some v"
  shows "users_file st' u = Some \<lparr>salt = salt old, verifier = verifier old, vault = stored v\<rparr>
         \<and> (\<forall>u'. u' \<noteq> u \<longrightarrow> users_file st' u' = users_file st u')
         \<and> proto_vault st' = proto_vault st"
  using assms(1,2)
  by (auto simp: updateVault_racing_def updateVault_loaded_own[OF assms(3-6)] saveUsers_def
           reply_def split: if_splits)

theorem updateVault_frame_witness:
  "updateVault_racing two_users ((users_file two_users)(''bob'' \<mapsto> bob\<lparr>vault := JStr ''vaultB2''\<rparr>))
     alice_update
   = (Inr \<lparr>status = 200, payload = Ok\<rparr>,
      two_users\<lparr>users_file := (users_file two_users)(''alice'' \<mapsto> alice\<lparr>vault := sample_vault\<rparr>)\<rparr>)
   \<and> users_file two_users ''alice'' = Some alice
   \<and> users_file
        (two_users\<lparr>users_file := (users_file two_users)(''alice'' \<mapsto> alice\<lparr>vault := sample_vault\<rparr>)\<rparr>)
        ''alice''
      = Some \<lparr>salt = salt alice, verifier = verifier alice, vault = stored sample_vault\<rparr>
   \<and> users_file
        (two_users\<lparr>users_file := (users_file two_users)(''alice'' \<mapsto> alice\<lparr>vault := sample_vault\<rparr>)\<rparr>)
        ''bob''
      = Some bob"
proof -
  let ?later = "(users_file two_users)(''bob'' \<mapsto> bob\<lparr>vault := JStr ''vaultB2''\<rparr>)"
  have a: "status \<lparr>status = 200, payload = Ok\<rparr> = 200" by simp
  have b: "map_of alice_update ''username'' = Some (JStr ''alice'')" by (simp add: alice_update_def)
  have c: "to_string (JStr ''alice'') = Inr ''alice''" by simp
  have d: "users_file two_users ''alice'' = Some alice" by (simp add: two_users_def)
  have e: "map_of alice_update ''vault'' = Some sample_vault" by (simp add: alice_update_def)
  have f: "users_file two_users ''bob'' = Some bob" by (simp add: two_users_def)
  from updateVault_frame[OF updateVault_racing_alice[of ?later] a b c d e]
    updateVault_racing_alice[of ?later] d f
  show ?thesis by simp
qed

text \<open>
  The claim as it is stated fails in two ways. The body
  \<^verbatim>\<open>{"username": "alice", "vault": 1e999}\<close> is answered with \<^verbatim>\<open>{ ok: true }\<close>, and the vault
  stored for alice is \<^verbatim>\<open>null\<close>, not the vault of the request. And when a request for bob is
  served between the read and the write of a request for alice, both are answered with
  \<^verbatim>\<open>{ ok: true }\<close> and the write for alice puts back the vault that bob had before.
\<close>

theorem updateVault_frame_counterexample:
  "fst (updateVault two_users alice_overflow) = Inr \<lparr>status = 200, payload = Ok\<rparr>
   \<and> map_of alice_overflow ''vault'' = Some (JNum ''Infinity'')
   \<and> users_file (snd (updateVault two_users alice_overflow)) ''alice''
       = Some \<lparr>salt = salt alice, verifier = verifier alice, vault = JNull\<rparr>
   \<and> users_file (snd (updateVault two_users alice_overflow)) ''alice''
       \<noteq> Some \<lparr>salt = salt alice, verifier = verifier alice, vault = JNum ''Infinity''\<rparr>
   \<and> fst (updateVault two_users bob_update) = Inr \<lparr>status = 200, payload = Ok\<rparr>
   \<and> users_file (snd (updateVault two_users bob_update)) ''bob''
       = Some (bob\<lparr>vault := JStr ''vaultB2''\<rparr>)
   \<and> fst (updateVault_racing two_users (users_file (snd (updateVault two_users bob_update)))
            alice_update)
       = Inr \<lparr>status = 200, payload = Ok\<rparr>
   \<and> users_file
        (snd (updateVault_racing two_users (users_file (snd (updateVault two_users bob_update)))
               alice_update))
        ''bob''
       = Some bob
   \<and> Some bob \<noteq> Some (bob\<lparr>vault := JStr ''vaultB2''\<rparr>)"
  by (simp add: updateVault_overflow updateVault_bob updateVault_racing_alice)
     (simp add: two_users_def alice_overflow_def alice_def bob_def)

text \<open>
  When no other request is served in between and the vault has no infinite number, the
  handler does what the claim says.
\<close>

lemma updateVault_alone_finite:
  assumes "updateVault st b = (Inr r, st')" and "status r = 200"
    and "map_of b ''username'' = Some n" and "to_string n = Inr u"
    and "users_file st u = Some old"
    and "map_of b ''vault'' = Some v" and "finite_json v"
  shows "st' = st\<lparr>users_file := (users_file st)(u \<mapsto> old\<lparr>vault := v\<rparr>)\<rparr>"
  using assms(1,2,7)
  by (auto simp: updateVault_def updateVault_loaded_own[OF assms(3-6)] saveUsers_def
           reply_def stored_finite split: if_splits)

end
